theory Spec2Isabelle
  imports Complex_Main "HOL-Library.AList"
begin

section \<open>Time, identifiers and errors\<close>

text \<open>
  A \<^verbatim>\<open>time.Time\<close> is an instant in nanoseconds since the Unix epoch and a
  \<^verbatim>\<open>time.Duration\<close> is a number of nanoseconds, both as unbounded integers.
  \<^verbatim>\<open>t.After(u)\<close> is \<open>u < t\<close>, \<^verbatim>\<open>t.Before(u)\<close> is \<open>t < u\<close>,
  \<^verbatim>\<open>t.Add(d)\<close> is \<open>t + d\<close> and \<^verbatim>\<open>t.Unix()\<close> is the number of whole seconds.
  Every modelled call reads the clock once: the instant \<open>now\<close> it is given.
\<close>

type_synonym time = int
type_synonym duration = int

definition time_Second :: duration where
  "time_Second = 1000000000"

definition time_Hour :: duration where
  "time_Hour = 3600 * time_Second"

definition Unix :: "time \<Rightarrow> int" where
  "Unix t = t div time_Second"

text \<open>
  A \<^verbatim>\<open>uuid.UUID\<close> is kept as its canonical text, which \<^verbatim>\<open>String()\<close> returns.
  A Go \<^verbatim>\<open>error\<close> is its message; \<open>None\<close> is \<^verbatim>\<open>nil\<close>.
\<close>

datatype uuid = UUID string

fun uuid_String :: "uuid \<Rightarrow> string" where
  "uuid_String (UUID s) = s"

type_synonym error = string

section \<open>Entities\<close>

text \<open>\<^verbatim>\<open>service.Session\<close> (user_service.go).\<close>

record Session =
  ID :: string
  UserID :: string
  Email :: string
  CreatedAt :: time
  ExpiresAt :: time
  IPAddress :: string
  UserAgent :: string
  IsActive :: bool

text \<open>
  \<^verbatim>\<open>domain.Product\<close>. Its declaration is not among the sources; the fields are the
  ones the services, the handlers and \<^verbatim>\<open>entity_test.go\<close> use. \<^verbatim>\<open>Price\<close> is a
  \<^verbatim>\<open>float64\<close> that is only compared with zero and copied, so it is a real number;
  \<^verbatim>\<open>Stock\<close> is an \<^verbatim>\<open>int\<close> that is only compared and copied.
\<close>

record Product =
  Product_ID :: uuid
  Product_Name :: string
  Product_Description :: string
  Product_Price :: real
  Product_Stock :: int
  Product_UserID :: uuid
  Product_CreatedAt :: time
  Product_UpdatedAt :: time

section \<open>The Redis client\<close>

text \<open>
  The values the program stores are the JSON encodings of a session, of a string (the
  per-user session pointer), of \<^verbatim>\<open>true\<close> (a blacklist flag) and of a product. The
  store keeps them decoded, tagged by what was marshalled; unmarshalling into another Go
  type is an error.
\<close>

datatype cached = JSession Session | JString string | JBool bool | JProduct Product

text \<open>
  The server is a list of keys, each with its value and the instant at which it expires
  (\<open>None\<close>: never). An expired key stays in the list and is invisible to every command.
  When the server cannot be reached every command returns an error and changes nothing.
\<close>

record redis =
  reachable :: bool
  entries :: "(string \<times> cached \<times> time option) list"

definition unavailable :: error where
  "unavailable = ''dial tcp: connection refused''"

definition redis_Nil :: error where
  "redis_Nil = ''redis: nil''"

fun live :: "time \<Rightarrow> cached \<times> time option \<Rightarrow> bool" where
  "live now (v, None) = True"
| "live now (v, Some e) = (now < e)"

definition lookup :: "redis \<Rightarrow> time \<Rightarrow> string \<Rightarrow> cached option" where
  "lookup r now key =
     (case map_of (entries r) key of
        None \<Rightarrow> None
      | Some ve \<Rightarrow> if live now ve then Some (fst ve) else None)"

text \<open>
  \<^verbatim>\<open>Client.Set(ctx, key, value, expiration)\<close>: a positive expiration is the key's time to
  live, \<^verbatim>\<open>KeepTTL\<close> (-1) keeps the one the key has, anything else stores the key for good.
\<close>

definition redis_Set :: "redis \<Rightarrow> time \<Rightarrow> string \<Rightarrow> cached \<Rightarrow> duration \<Rightarrow> error option \<times> redis" where
  "redis_Set r now key v expiration =
     (if \<not> reachable r then (Some unavailable, r)
      else
        let e = (if 0 < expiration then Some (now + expiration)
                 else if expiration = -1 then
                   (case map_of (entries r) key of
                      None \<Rightarrow> None
                    | Some ve \<Rightarrow> if live now ve then snd ve else None)
                 else None)
        in (None, r\<lparr>entries := AList.update key (v, e) (entries r)\<rparr>))"

definition redis_Get :: "redis \<Rightarrow> time \<Rightarrow> string \<Rightarrow> error + cached" where
  "redis_Get r now key =
     (if \<not> reachable r then Inl unavailable
      else case lookup r now key of None \<Rightarrow> Inl redis_Nil | Some v \<Rightarrow> Inr v)"

definition redis_Del :: "redis \<Rightarrow> string \<Rightarrow> error option \<times> redis" where
  "redis_Del r key =
     (if \<not> reachable r then (Some unavailable, r)
      else (None, r\<lparr>entries := AList.delete key (entries r)\<rparr>))"

definition redis_Exists :: "redis \<Rightarrow> time \<Rightarrow> string \<Rightarrow> error + int" where
  "redis_Exists r now key =
     (if \<not> reachable r then Inl unavailable
      else Inr (case lookup r now key of None \<Rightarrow> 0 | Some v \<Rightarrow> 1))"

text \<open>
  \<^verbatim>\<open>Client.Keys(ctx, pattern)\<close>. The patterns of the program are a literal prefix and a
  final \<^verbatim>\<open>*\<close>; \<open>glob\<close> matches literal characters and \<^verbatim>\<open>*\<close>.
\<close>

fun glob :: "string \<Rightarrow> string \<Rightarrow> bool" where
  "glob [] s = (s = [])"
| "glob (p # ps) [] = (p = CHR ''*'' \<and> glob ps [])"
| "glob (p # ps) (c # cs) =
     (if p = CHR ''*'' then glob ps (c # cs) \<or> glob (p # ps) cs
      else p = c \<and> glob ps cs)"

definition redis_Keys :: "redis \<Rightarrow> time \<Rightarrow> string \<Rightarrow> error + string list" where
  "redis_Keys r now pattern =
     (if \<not> reachable r then Inl unavailable
      else Inr (map fst (filter (\<lambda>(k, ve). live now ve \<and> glob pattern k) (entries r))))"

section \<open>CacheService (cache_service.go)\<close>

definition wrap :: "string \<Rightarrow> error \<Rightarrow> error" where
  "wrap msg e = msg @ '': '' @ e"

text \<open>\<^verbatim>\<open>Set\<close>: none of the stored values fails to marshal.\<close>

definition CacheService_Set :: "redis \<Rightarrow> time \<Rightarrow> string \<Rightarrow> cached \<Rightarrow> duration \<Rightarrow> error option \<times> redis" where
  "CacheService_Set r now key v expiration = redis_Set r now key v expiration"

definition unmarshal_error :: error where
  "unmarshal_error = ''json: cannot unmarshal''"

text \<open>\<^verbatim>\<open>Get\<close> with a \<^verbatim>\<open>*Session\<close> destination.\<close>

definition CacheService_Get_Session :: "redis \<Rightarrow> time \<Rightarrow> string \<Rightarrow> error + Session" where
  "CacheService_Get_Session r now key =
     (case redis_Get r now key of
        Inl e \<Rightarrow> Inl (wrap ''failed to get value'' e)
      | Inr (JSession s) \<Rightarrow> Inr s
      | Inr _ \<Rightarrow> Inl unmarshal_error)"

text \<open>\<^verbatim>\<open>Get\<close> with a \<^verbatim>\<open>*domain.Product\<close> destination.\<close>

definition CacheService_Get_Product :: "redis \<Rightarrow> time \<Rightarrow> string \<Rightarrow> error + Product" where
  "CacheService_Get_Product r now key =
     (case redis_Get r now key of
        Inl e \<Rightarrow> Inl (wrap ''failed to get value'' e)
      | Inr (JProduct p) \<Rightarrow> Inr p
      | Inr _ \<Rightarrow> Inl unmarshal_error)"

definition CacheService_Delete :: "redis \<Rightarrow> string \<Rightarrow> error option \<times> redis" where
  "CacheService_Delete r key = redis_Del r key"

definition CacheService_DeletePattern :: "redis \<Rightarrow> time \<Rightarrow> string \<Rightarrow> error option \<times> redis" where
  "CacheService_DeletePattern r now pattern =
     (case redis_Keys r now pattern of
        Inl e \<Rightarrow> (Some (wrap ''failed to get keys'' e), r)
      | Inr keys \<Rightarrow>
          if 0 < length keys
          then (None, r\<lparr>entries := filter (\<lambda>(k, ve). k \<notin> set keys) (entries r)\<rparr>)
          else (None, r))"

definition CacheService_Exists :: "redis \<Rightarrow> time \<Rightarrow> string \<Rightarrow> error + bool" where
  "CacheService_Exists r now key =
     (case redis_Exists r now key of
        Inl e \<Rightarrow> Inl (wrap ''failed to check key existence'' e)
      | Inr result \<Rightarrow> Inr (0 < result))"

section \<open>SessionService (user_service.go)\<close>

definition session_key :: "string \<Rightarrow> string" where
  "session_key sessionID = ''session:'' @ sessionID"

definition user_sessions_key :: "string \<Rightarrow> string" where
  "user_sessions_key userID = ''user_sessions:'' @ userID"

text \<open>
  \<^verbatim>\<open>DeleteSession\<close>: when the session can be read its owner's pointer is deleted, the
  result of that deletion being dropped; the result is the one of deleting the session key.
\<close>

definition DeleteSession :: "redis \<Rightarrow> time \<Rightarrow> string \<Rightarrow> error option \<times> redis" where
  "DeleteSession r now sessionID =
     (let key = session_key sessionID;
          r1 = (case CacheService_Get_Session r now key of
                  Inr session \<Rightarrow> snd (CacheService_Delete r (user_sessions_key (UserID session)))
                | Inl err \<Rightarrow> r)
      in CacheService_Delete r1 key)"

text \<open>
  \<^verbatim>\<open>GetSession\<close>: the expiry test is \<^verbatim>\<open>time.Now().After(session.ExpiresAt)\<close>; the result
  of the deletion it triggers is dropped.
\<close>

definition GetSession :: "redis \<Rightarrow> time \<Rightarrow> string \<Rightarrow> (error + Session) \<times> redis" where
  "GetSession r now sessionID =
     (let key = session_key sessionID in
      case CacheService_Get_Session r now key of
        Inl err \<Rightarrow> (Inl (wrap ''session not found'' err), r)
      | Inr session \<Rightarrow>
          if ExpiresAt session < now
          then (Inl ''session expired'', snd (DeleteSession r now sessionID))
          else (Inr session, r))"

text \<open>\<^verbatim>\<open>IsSessionValid\<close> returns \<^verbatim>\<open>(false, nil)\<close> when the session cannot be read.\<close>

definition IsSessionValid :: "redis \<Rightarrow> time \<Rightarrow> string \<Rightarrow> (bool \<times> error option) \<times> redis" where
  "IsSessionValid r now sessionID =
     (case GetSession r now sessionID of
        (Inl err, r') \<Rightarrow> ((False, None), r')
      | (Inr session, r') \<Rightarrow> ((IsActive session \<and> now < ExpiresAt session, None), r'))"

text \<open>
  \<^verbatim>\<open>GetActiveSessionsCount\<close>: the loop over the keys that \<^verbatim>\<open>session:*\<close> matches. The
  counter is an \<^verbatim>\<open>int64\<close> that counts keys of the store, far below its bound.
\<close>

fun count_active :: "redis \<Rightarrow> time \<Rightarrow> string \<Rightarrow> string list \<Rightarrow> int \<Rightarrow> int" where
  "count_active r now userID [] count = count"
| "count_active r now userID (key # keys) count =
     count_active r now userID keys
       (case CacheService_Get_Session r now key of
          Inr session \<Rightarrow>
            if UserID session = userID \<and> IsActive session \<and> now < ExpiresAt session
            then count + 1 else count
        | Inl err \<Rightarrow> count)"

definition GetActiveSessionsCount :: "redis \<Rightarrow> time \<Rightarrow> string \<Rightarrow> int \<times> error option" where
  "GetActiveSessionsCount r now userID =
     (case redis_Keys r now ''session:*'' of
        Inl err \<Rightarrow> (0, Some (wrap ''failed to get session keys'' err))
      | Inr keys \<Rightarrow> (count_active r now userID keys 0, None))"


section \<open>Tokens (github.com/golang-jwt/jwt/v5)\<close>

text \<open>
  A token is its signing method, its claims (\<^verbatim>\<open>jwt.MapClaims\<close>, here the claims the
  program reads or writes: strings and whole numbers of seconds) and the key that signed
  it: an HMAC signature verifies under a key exactly when that key signed the token.
\<close>

datatype signing_method = HS256 | HS384 | HS512 | RS256 | ES256 | PS256 | EdDSA | alg_none

datatype claim = VString string | VNumber int | VBool bool | VNull

record jwt =
  Method :: signing_method
  Claims :: "(string \<times> claim) list"
  signed_with :: string

text \<open>
  What the program takes from its libraries without the sources deciding it: the compact
  serialisation of a token and its inverse, the parser of UUID texts, and the SHA-256
  digest in hexadecimal (\<^verbatim>\<open>hex.EncodeToString(sha256.Sum256(...))\<close>).
\<close>

record library =
  jwt_encode :: "jwt \<Rightarrow> string"
  jwt_decode :: "string \<Rightarrow> jwt option"
  uuid_Parse :: "string \<Rightarrow> uuid option"
  sha256_hex :: "string \<Rightarrow> string"

text \<open>\<^verbatim>\<open>token.Method.(*jwt.SigningMethodHMAC)\<close> succeeds for the three HMAC methods.\<close>

fun is_HMAC :: "signing_method \<Rightarrow> bool" where
  "is_HMAC HS256 = True"
| "is_HMAC HS384 = True"
| "is_HMAC HS512 = True"
| "is_HMAC m = False"

text \<open>The key function that \<^verbatim>\<open>AuthMiddleware\<close> and \<^verbatim>\<open>RefreshToken\<close> hand to the parser.\<close>

definition keyfunc :: "string \<Rightarrow> jwt \<Rightarrow> error + string" where
  "keyfunc jwtSecret token =
     (if \<not> is_HMAC (Method token) then Inl ''unexpected signing method''
      else Inr jwtSecret)"

text \<open>
  The library's validation of the registered claims, as the parser runs it without
  options: \<^verbatim>\<open>exp\<close> and \<^verbatim>\<open>nbf\<close> are optional and must be numbers when present; the
  token is valid while \<^verbatim>\<open>now.Before(exp)\<close> and once \<^verbatim>\<open>nbf\<close> is not after \<open>now\<close>.
\<close>

definition jwt_Validate :: "time \<Rightarrow> (string \<times> claim) list \<Rightarrow> error option" where
  "jwt_Validate now claims =
     (case map_of claims ''exp'' of
        Some (VNumber e) \<Rightarrow>
          if now < e * time_Second then
            (case map_of claims ''nbf'' of
               None \<Rightarrow> None
             | Some (VNumber n) \<Rightarrow>
                 if now < n * time_Second then Some ''token is not valid yet'' else None
             | Some v \<Rightarrow> Some ''token has invalid claims: invalid type for claim'')
          else Some ''token is expired''
      | None \<Rightarrow>
          (case map_of claims ''nbf'' of
             None \<Rightarrow> None
           | Some (VNumber n) \<Rightarrow>
               if now < n * time_Second then Some ''token is not valid yet'' else None
           | Some v \<Rightarrow> Some ''token has invalid claims: invalid type for claim'')
      | Some v \<Rightarrow> Some ''token has invalid claims: invalid type for claim'')"

text \<open>
  \<^verbatim>\<open>jwt.Parse(tokenString, keyFunc)\<close>: decode, ask the key function for the key, verify
  the signature, validate the claims. A returned token has \<^verbatim>\<open>Valid\<close> set.
\<close>

definition jwt_Parse :: "library \<Rightarrow> time \<Rightarrow> string \<Rightarrow> (jwt \<Rightarrow> error + string) \<Rightarrow> error + jwt" where
  "jwt_Parse lib now tokenString keyFunc =
     (case jwt_decode lib tokenString of
        None \<Rightarrow> Inl ''token is malformed''
      | Some token \<Rightarrow>
          (case keyFunc token of
             Inl err \<Rightarrow> Inl (wrap ''token is unverifiable'' err)
           | Inr key \<Rightarrow>
               if signed_with token \<noteq> key then Inl ''token signature is invalid''
               else (case jwt_Validate now (Claims token) of
                       Some err \<Rightarrow> Inl err
                     | None \<Rightarrow> Inr token)))"

text \<open>\<^verbatim>\<open>domain.User\<close>: the fields the token issuer reads.\<close>

record User =
  User_ID :: uuid
  User_Email :: string

definition NewAccessToken :: "time \<Rightarrow> User \<Rightarrow> string \<Rightarrow> string \<Rightarrow> jwt" where
  "NewAccessToken now user sessionID jwtSecret =
     \<lparr>Method = HS256,
      Claims = [(''user_id'', VString (uuid_String (User_ID user))),
                (''email'', VString (User_Email user)),
                (''session_id'', VString sessionID),
                (''exp'', VNumber (Unix (now + time_Hour))),
                (''type'', VString ''access'')],
      signed_with = jwtSecret\<rparr>"

definition generateAccessToken :: "library \<Rightarrow> string \<Rightarrow> time \<Rightarrow> User \<Rightarrow> string \<Rightarrow> string" where
  "generateAccessToken lib jwtSecret now user sessionID =
     jwt_encode lib (NewAccessToken now user sessionID jwtSecret)"

definition NewRefreshToken :: "time \<Rightarrow> User \<Rightarrow> string \<Rightarrow> string \<Rightarrow> jwt" where
  "NewRefreshToken now user sessionID jwtSecret =
     \<lparr>Method = HS256,
      Claims = [(''user_id'', VString (uuid_String (User_ID user))),
                (''email'', VString (User_Email user)),
                (''session_id'', VString sessionID),
                (''exp'', VNumber (Unix (now + 7 * 24 * time_Hour))),
                (''type'', VString ''refresh'')],
      signed_with = jwtSecret\<rparr>"

definition generateRefreshToken :: "library \<Rightarrow> string \<Rightarrow> time \<Rightarrow> User \<Rightarrow> string \<Rightarrow> string" where
  "generateRefreshToken lib jwtSecret now user sessionID =
     jwt_encode lib (NewRefreshToken now user sessionID jwtSecret)"

section \<open>UserService (user_service.go)\<close>

definition hashToken :: "library \<Rightarrow> string \<Rightarrow> string" where
  "hashToken lib token = sha256_hex lib token"

definition BlacklistToken :: "library \<Rightarrow> redis \<Rightarrow> time \<Rightarrow> string \<Rightarrow> error option \<times> redis" where
  "BlacklistToken lib r now token =
     (let tokenHash = hashToken lib token;
          blacklistKey = ''blacklist:'' @ tokenHash
      in CacheService_Set r now blacklistKey (JBool True) (24 * time_Hour))"

definition IsTokenBlacklisted :: "library \<Rightarrow> redis \<Rightarrow> time \<Rightarrow> string \<Rightarrow> bool \<times> error option" where
  "IsTokenBlacklisted lib r now token =
     (let tokenHash = hashToken lib token;
          blacklistKey = ''blacklist:'' @ tokenHash
      in case CacheService_Exists r now blacklistKey of
           Inl err \<Rightarrow> (False, Some (wrap ''failed to check token blacklist'' err))
         | Inr exists \<Rightarrow> (exists, None))"

definition IsUserSessionBlacklisted :: "redis \<Rightarrow> time \<Rightarrow> uuid \<Rightarrow> string \<Rightarrow> bool \<times> error option" where
  "IsUserSessionBlacklisted r now userID sessionID =
     (let userBlacklistKey = ''user_blacklist:'' @ uuid_String userID @ '':'' @ sessionID
      in case CacheService_Exists r now userBlacklistKey of
           Inl err \<Rightarrow> (False, Some (wrap ''failed to check user session blacklist'' err))
         | Inr exists \<Rightarrow> (exists, None))"

definition ValidateSession :: "redis \<Rightarrow> time \<Rightarrow> string \<Rightarrow> (bool \<times> error option) \<times> redis" where
  "ValidateSession r now sessionID = IsSessionValid r now sessionID"

text \<open>\<^verbatim>\<open>domain.SessionInfo\<close> and \<^verbatim>\<open>domain.UserSessionsResponse\<close>.\<close>

record SessionInfo =
  SessionInfo_SessionID :: string
  SessionInfo_UserID :: string
  SessionInfo_Email :: string
  SessionInfo_CreatedAt :: time
  SessionInfo_ExpiresAt :: time
  SessionInfo_IPAddress :: string
  SessionInfo_UserAgent :: string
  SessionInfo_IsActive :: bool

record UserSessionsResponse =
  ActiveSessions :: "SessionInfo list"
  TotalSessions :: int

definition GetUserSessions :: "redis \<Rightarrow> time \<Rightarrow> uuid \<Rightarrow> error + UserSessionsResponse" where
  "GetUserSessions r now userID =
     (case GetActiveSessionsCount r now (uuid_String userID) of
        (count, Some err) \<Rightarrow> Inl err
      | (count, None) \<Rightarrow> Inr \<lparr>ActiveSessions = [], TotalSessions = count\<rparr>)"

section \<open>The HTTP layer: responses and the request context\<close>

text \<open>
  A handler answers with a status and a JSON body: a \<^verbatim>\<open>domain.ErrorResponse\<close> (its
  \<^verbatim>\<open>Error\<close> and \<^verbatim>\<open>Message\<close>), a \<^verbatim>\<open>gin.H\<close> holding one message, or a payload.
\<close>

datatype body =
    ErrorResponse string string
  | MessageH string
  | SessionsBody UserSessionsResponse
  | ProductBody Product

record response =
  status :: nat
  payload :: body

definition StatusOK :: nat where
  "StatusOK = 200"

definition StatusBadRequest :: nat where
  "StatusBadRequest = 400"

definition StatusUnauthorized :: nat where
  "StatusUnauthorized = 401"

definition StatusForbidden :: nat where
  "StatusForbidden = 403"

definition StatusNotFound :: nat where
  "StatusNotFound = 404"

definition StatusInternalServerError :: nat where
  "StatusInternalServerError = 500"

text \<open>What \<^verbatim>\<open>AuthMiddleware\<close> sets in the \<^verbatim>\<open>gin.Context\<close> before \<^verbatim>\<open>c.Next()\<close>.\<close>

record auth_context =
  user_id :: uuid
  session_id :: string
  token :: string

datatype outcome = Abort response | Next auth_context

definition unauthorized :: "string \<Rightarrow> outcome" where
  "unauthorized message =
     Abort \<lparr>status = StatusUnauthorized, payload = ErrorResponse ''Unauthorized'' message\<rparr>"

definition HasPrefix :: "string \<Rightarrow> string \<Rightarrow> bool" where
  "HasPrefix s prefix = (take (length prefix) s = prefix)"

definition TrimPrefix :: "string \<Rightarrow> string \<Rightarrow> string" where
  "TrimPrefix s prefix = (if HasPrefix s prefix then drop (length prefix) s else s)"

section \<open>AuthMiddleware (handler package)\<close>

text \<open>
  \<open>authHeader\<close> is \<^verbatim>\<open>c.GetHeader("Authorization")\<close>, empty when the header is absent.
  The assertion \<^verbatim>\<open>token.Claims.(jwt.MapClaims)\<close> cannot fail on what \<^verbatim>\<open>jwt.Parse\<close>
  returns, so its branch has no counterpart here. The store is returned because the
  session check may delete an expired session.
\<close>

definition AuthMiddleware ::
  "library \<Rightarrow> string \<Rightarrow> redis \<Rightarrow> time \<Rightarrow> string \<Rightarrow> outcome \<times> redis" where
  "AuthMiddleware lib jwtSecret r now authHeader =
     (if authHeader = [] then (unauthorized ''Authorization header is required'', r)
      else if \<not> HasPrefix authHeader ''Bearer ''
      then (unauthorized ''Invalid authorization header format'', r)
      else
        let tokenString = TrimPrefix authHeader ''Bearer '' in
        case jwt_Parse lib now tokenString (keyfunc jwtSecret) of
          Inl err \<Rightarrow> (unauthorized ''Invalid or expired token'', r)
        | Inr tok \<Rightarrow>
            (case map_of (Claims tok) ''user_id'' of
               Some (VString userIDStr) \<Rightarrow>
                 (case map_of (Claims tok) ''session_id'' of
                    Some (VString sessionID) \<Rightarrow>
                      (case uuid_Parse lib userIDStr of
                         None \<Rightarrow> (unauthorized ''Invalid user ID format'', r)
                       | Some userID \<Rightarrow>
                           (case ValidateSession r now sessionID of
                              ((isValid, err), r1) \<Rightarrow>
                                if err \<noteq> None \<or> \<not> isValid
                                then (unauthorized ''Session expired or invalid'', r1)
                                else
                                  (case IsTokenBlacklisted lib r1 now tokenString of
                                     (isBlacklisted, err) \<Rightarrow>
                                       if err \<noteq> None \<or> isBlacklisted
                                       then (unauthorized ''Token has been invalidated'', r1)
                                       else
                                         (case IsUserSessionBlacklisted r1 now userID sessionID of
                                            (isUserBlacklisted, err) \<Rightarrow>
                                              if err \<noteq> None \<or> isUserBlacklisted
                                              then (unauthorized
                                                      ''Session has been invalidated by logout all'', r1)
                                              else (Next \<lparr>user_id = userID,
                                                           session_id = sessionID,
                                                           token = tokenString\<rparr>, r1)))))
                  | _ \<Rightarrow> (unauthorized ''Invalid session ID in token'', r))
             | _ \<Rightarrow> (unauthorized ''Invalid user ID in token'', r)))"

text \<open>\<^verbatim>\<open>UserHandler.GetUserSessions\<close>; \<open>userID\<close> is the context's \<^verbatim>\<open>user_id\<close>.\<close>

definition UserHandler_GetUserSessions :: "redis \<Rightarrow> time \<Rightarrow> uuid \<Rightarrow> response" where
  "UserHandler_GetUserSessions r now userID =
     (case GetUserSessions r now userID of
        Inl err \<Rightarrow>
          \<lparr>status = StatusInternalServerError,
           payload = ErrorResponse ''Internal Server Error'' ''Failed to retrieve user sessions''\<rparr>
      | Inr sessions \<Rightarrow> \<lparr>status = StatusOK, payload = SessionsBody sessions\<rparr>)"

section \<open>The Auth Gatekeeper as the specification words it\<close>

text \<open>
  The five checks of the specification, each a condition on the request and on the store
  as it is when the request arrives, and the reason each one gives when it fails.
\<close>

datatype reason =
    MissingCredentials
  | InvalidToken
  | SessionInvalid
  | TokenRevoked
  | SessionRevokedByLogoutAll

text \<open>Check 1: the header is present and starts with \<^verbatim>\<open>Bearer\<close> and a space.\<close>

definition header_well_formed :: "string \<Rightarrow> bool" where
  "header_well_formed authHeader =
     (authHeader \<noteq> [] \<and> take 7 authHeader = ''Bearer '')"

text \<open>
  Check 2, the verification of the specification: the algorithm is an HMAC, the signature
  is under the secret, the token has not expired, and all required claims are there with
  their types: \<^verbatim>\<open>user_id\<close> a string (that is a UUID), \<^verbatim>\<open>email\<close>, \<^verbatim>\<open>session_id\<close> and
  \<^verbatim>\<open>type\<close> strings, \<^verbatim>\<open>exp\<close> a number. It gives the identities the later checks are
  about.
\<close>

definition claim_is_string :: "(string \<times> claim) list \<Rightarrow> string \<Rightarrow> bool" where
  "claim_is_string claims name =
     (case map_of claims name of Some (VString s) \<Rightarrow> True | _ \<Rightarrow> False)"

definition claim_is_number :: "(string \<times> claim) list \<Rightarrow> string \<Rightarrow> bool" where
  "claim_is_number claims name =
     (case map_of claims name of Some (VNumber n) \<Rightarrow> True | _ \<Rightarrow> False)"

definition token_verified_spec ::
  "library \<Rightarrow> string \<Rightarrow> time \<Rightarrow> string \<Rightarrow> (uuid \<times> string) option" where
  "token_verified_spec lib jwtSecret now tokenString =
     (case jwt_decode lib tokenString of
        None \<Rightarrow> None
      | Some tok \<Rightarrow>
          if is_HMAC (Method tok) \<and> signed_with tok = jwtSecret
             \<and> claim_is_number (Claims tok) ''exp''
             \<and> jwt_Validate now (Claims tok) = None
             \<and> claim_is_string (Claims tok) ''email''
             \<and> claim_is_string (Claims tok) ''type''
          then (case (map_of (Claims tok) ''user_id'', map_of (Claims tok) ''session_id'') of
                  (Some (VString u), Some (VString sid)) \<Rightarrow>
                    (case uuid_Parse lib u of None \<Rightarrow> None | Some userID \<Rightarrow> Some (userID, sid))
                | _ \<Rightarrow> None)
          else None)"

text \<open>Check 3: the session is present, active and \<open>now < expires_at\<close>.\<close>

definition session_valid :: "redis \<Rightarrow> time \<Rightarrow> string \<Rightarrow> bool" where
  "session_valid r now sid =
     (reachable r \<and>
      (case lookup r now (''session:'' @ sid) of
         Some (JSession s) \<Rightarrow> IsActive s \<and> now < ExpiresAt s
       | _ \<Rightarrow> False))"

text \<open>Checks 4 and 5: no flag under the token's digest, none under the user and session.\<close>

definition token_revoked :: "library \<Rightarrow> redis \<Rightarrow> time \<Rightarrow> string \<Rightarrow> bool" where
  "token_revoked lib r now tokenString =
     (lookup r now (''blacklist:'' @ sha256_hex lib tokenString) \<noteq> None)"

definition session_bulk_revoked :: "redis \<Rightarrow> time \<Rightarrow> uuid \<Rightarrow> string \<Rightarrow> bool" where
  "session_bulk_revoked r now userID sid =
     (lookup r now (''user_blacklist:'' @ uuid_String userID @ '':'' @ sid) \<noteq> None)"

definition gatekeeper_spec :: "library \<Rightarrow> string \<Rightarrow> redis \<Rightarrow> time \<Rightarrow> string \<Rightarrow> reason + auth_context" where
  "gatekeeper_spec lib jwtSecret r now authHeader =
     (if \<not> header_well_formed authHeader then Inl MissingCredentials
      else case token_verified_spec lib jwtSecret now (drop 7 authHeader) of
             None \<Rightarrow> Inl InvalidToken
           | Some (userID, sid) \<Rightarrow>
               if \<not> session_valid r now sid then Inl SessionInvalid
               else if token_revoked lib r now (drop 7 authHeader) then Inl TokenRevoked
               else if session_bulk_revoked r now userID sid then Inl SessionRevokedByLogoutAll
               else Inr \<lparr>user_id = userID, session_id = sid, token = drop 7 authHeader\<rparr>)"

section \<open>The gatekeeper with the token check the middleware makes\<close>

text \<open>
  Check 2 as C1 is amended: HMAC algorithm, signature under the secret, not expired when
  there is an \<^verbatim>\<open>exp\<close>, \<^verbatim>\<open>user_id\<close> a string that is a UUID and \<^verbatim>\<open>session_id\<close> a
  string. Nothing is asked of \<^verbatim>\<open>email\<close> and \<^verbatim>\<open>type\<close>, and \<^verbatim>\<open>exp\<close> may be missing. The
  other four checks and their order are those of the specification.
\<close>

definition token_verified :: "library \<Rightarrow> string \<Rightarrow> time \<Rightarrow> string \<Rightarrow> (uuid \<times> string) option" where
  "token_verified lib jwtSecret now tokenString =
     (case jwt_decode lib tokenString of
        None \<Rightarrow> None
      | Some tok \<Rightarrow>
          if is_HMAC (Method tok) \<and> signed_with tok = jwtSecret
             \<and> jwt_Validate now (Claims tok) = None
          then (case (map_of (Claims tok) ''user_id'', map_of (Claims tok) ''session_id'') of
                  (Some (VString u), Some (VString sid)) \<Rightarrow>
                    (case uuid_Parse lib u of None \<Rightarrow> None | Some userID \<Rightarrow> Some (userID, sid))
                | _ \<Rightarrow> None)
          else None)"

definition gatekeeper :: "library \<Rightarrow> string \<Rightarrow> redis \<Rightarrow> time \<Rightarrow> string \<Rightarrow> reason + auth_context" where
  "gatekeeper lib jwtSecret r now authHeader =
     (if \<not> header_well_formed authHeader then Inl MissingCredentials
      else case token_verified lib jwtSecret now (drop 7 authHeader) of
             None \<Rightarrow> Inl InvalidToken
           | Some (userID, sid) \<Rightarrow>
               if \<not> session_valid r now sid then Inl SessionInvalid
               else if token_revoked lib r now (drop 7 authHeader) then Inl TokenRevoked
               else if session_bulk_revoked r now userID sid then Inl SessionRevokedByLogoutAll
               else Inr \<lparr>user_id = userID, session_id = sid, token = drop 7 authHeader\<rparr>)"

text \<open>The claims that check 2 of the specification asks for beyond those of the amended one.\<close>

definition has_required_claims :: "(string \<times> claim) list \<Rightarrow> bool" where
  "has_required_claims claims =
     (claim_is_number claims ''exp'' \<and> claim_is_string claims ''email''
      \<and> claim_is_string claims ''type'')"

section \<open>Outcomes of the middleware as gatekeeper verdicts\<close>

text \<open>The reason a response message stands for; no message stands for two.\<close>

definition reason_of_message :: "string \<Rightarrow> reason option" where
  "reason_of_message m =
     (if m = ''Authorization header is required'' then Some MissingCredentials
      else if m = ''Invalid authorization header format'' then Some MissingCredentials
      else if m = ''Invalid or expired token'' then Some InvalidToken
      else if m = ''Invalid token claims'' then Some InvalidToken
      else if m = ''Invalid user ID in token'' then Some InvalidToken
      else if m = ''Invalid session ID in token'' then Some InvalidToken
      else if m = ''Invalid user ID format'' then Some InvalidToken
      else if m = ''Session expired or invalid'' then Some SessionInvalid
      else if m = ''Token has been invalidated'' then Some TokenRevoked
      else if m = ''Session has been invalidated by logout all''
      then Some SessionRevokedByLogoutAll
      else None)"

text \<open>
  How an outcome of the middleware reads as a gatekeeper result: an abort counts only
  when it is a 401 whose body is an \<^verbatim>\<open>Unauthorized\<close> error with a known message.
\<close>

fun verdict :: "outcome \<Rightarrow> (reason + auth_context) option" where
  "verdict (Next ctx) = Some (Inr ctx)"
| "verdict (Abort resp) =
     (case payload resp of
        ErrorResponse e m \<Rightarrow>
          if status resp = 401 \<and> e = ''Unauthorized''
          then map_option Inl (reason_of_message m) else None
      | _ \<Rightarrow> None)"

section \<open>The relational store (gorm) and the product repository\<close>

text \<open>
  The database is the rows of the products table and of the users table; when it cannot be reached every
  statement fails and changes nothing. \<^verbatim>\<open>First\<close> with \<^verbatim>\<open>id = ?\<close> finds the row with that
  primary key, \<^verbatim>\<open>Save\<close> rewrites all columns of the row with the entity's primary key
  and inserts the entity when there is none, \<^verbatim>\<open>Delete\<close> with \<^verbatim>\<open>id = ?\<close> removes the row.
\<close>

record database =
  db_up :: bool
  rows :: "Product list"
  users :: "User list"

definition db_error :: error where
  "db_error = ''failed to connect to database''"

definition ProductRepository_GetByID :: "database \<Rightarrow> uuid \<Rightarrow> error + Product" where
  "ProductRepository_GetByID db pid =
     (if \<not> db_up db then Inl db_error
      else case find (\<lambda>p. Product_ID p = pid) (rows db) of
             None \<Rightarrow> Inl ''product not found''
           | Some product \<Rightarrow> Inr product)"

definition GenericRepository_Update :: "database \<Rightarrow> Product \<Rightarrow> error option \<times> database" where
  "GenericRepository_Update db entity =
     (if \<not> db_up db then (Some db_error, db)
      else if find (\<lambda>p. Product_ID p = Product_ID entity) (rows db) = None
      then (None, db\<lparr>rows := rows db @ [entity]\<rparr>)
      else (None, db\<lparr>rows := map (\<lambda>p. if Product_ID p = Product_ID entity then entity else p)
                                  (rows db)\<rparr>))"

definition GenericRepository_Delete :: "database \<Rightarrow> uuid \<Rightarrow> error option \<times> database" where
  "GenericRepository_Delete db pid =
     (if \<not> db_up db then (Some db_error, db)
      else (None, db\<lparr>rows := filter (\<lambda>p. Product_ID p \<noteq> pid) (rows db)\<rparr>))"

section \<open>ProductService (product_service.go)\<close>

definition time_Minute :: duration where
  "time_Minute = 60 * time_Second"

text \<open>\<^verbatim>\<open>invalidateUserCache\<close> drops the result of each of its four deletions.\<close>

definition invalidateUserCache :: "redis \<Rightarrow> time \<Rightarrow> uuid \<Rightarrow> redis" where
  "invalidateUserCache r now userID =
     (let r1 = snd (CacheService_Delete r (''user_products:'' @ uuid_String userID));
          r2 = snd (CacheService_Delete r1 (''user_stats:'' @ uuid_String userID));
          r3 = snd (CacheService_DeletePattern r2 now
                      (''user_products_filtered:'' @ uuid_String userID @ '':*''))
      in snd (CacheService_DeletePattern r3 now
                (''user_products_cursor:'' @ uuid_String userID @ '':*'')))"

definition ProductService_GetByID ::
  "database \<Rightarrow> redis \<Rightarrow> time \<Rightarrow> uuid \<Rightarrow> uuid \<Rightarrow> (error + Product) \<times> redis" where
  "ProductService_GetByID db r now pid userID =
     (let cacheKey = ''product:'' @ uuid_String userID @ '':'' @ uuid_String pid in
      case CacheService_Get_Product r now cacheKey of
        Inr cachedProduct \<Rightarrow> (Inr cachedProduct, r)
      | Inl miss \<Rightarrow>
          (case ProductRepository_GetByID db pid of
             Inl err \<Rightarrow> (Inl err, r)
           | Inr product \<Rightarrow>
               if Product_UserID product \<noteq> userID
               then (Inl ''unauthorized access to product'', r)
               else (Inr product,
                     snd (CacheService_Set r now cacheKey (JProduct product) (30 * time_Minute)))))"

definition ProductService_Update ::
  "database \<Rightarrow> redis \<Rightarrow> time \<Rightarrow> Product \<Rightarrow> uuid \<Rightarrow> error option \<times> database \<times> redis" where
  "ProductService_Update db r now product userID =
     (case ProductRepository_GetByID db (Product_ID product) of
        Inl err \<Rightarrow> (Some err, db, r)
      | Inr existingProduct \<Rightarrow>
          if Product_UserID existingProduct \<noteq> userID
          then (Some ''unauthorized access to product'', db, r)
          else
            let e1 = (if Product_Name product \<noteq> []
                      then existingProduct\<lparr>Product_Name := Product_Name product\<rparr>
                      else existingProduct);
                e2 = (if Product_Description product \<noteq> []
                      then e1\<lparr>Product_Description := Product_Description product\<rparr>
                      else e1);
                e3 = (if Product_Price product > 0
                      then e2\<lparr>Product_Price := Product_Price product\<rparr>
                      else e2);
                e4 = (if Product_Stock product \<ge> 0
                      then e3\<lparr>Product_Stock := Product_Stock product\<rparr>
                      else e3);
                e5 = e4\<lparr>Product_UpdatedAt := now\<rparr>
            in case GenericRepository_Update db e5 of
                 (Some err, db') \<Rightarrow> (Some err, db', r)
               | (None, db') \<Rightarrow> (None, db', invalidateUserCache r now userID))"

definition ProductService_Delete ::
  "database \<Rightarrow> redis \<Rightarrow> time \<Rightarrow> uuid \<Rightarrow> uuid \<Rightarrow> error option \<times> database \<times> redis" where
  "ProductService_Delete db r now pid userID =
     (case ProductRepository_GetByID db pid of
        Inl err \<Rightarrow> (Some err, db, r)
      | Inr existingProduct \<Rightarrow>
          if Product_UserID existingProduct \<noteq> userID
          then (Some ''unauthorized access to product'', db, r)
          else (case GenericRepository_Delete db pid of
                  (Some err, db') \<Rightarrow> (Some err, db', r)
                | (None, db') \<Rightarrow> (None, db', invalidateUserCache r now userID)))"

section \<open>ProductHandler (handler package)\<close>

definition validateUUID :: "library \<Rightarrow> string \<Rightarrow> error + uuid" where
  "validateUUID lib pid =
     (if pid = [] then Inl ''ID is required''
      else case uuid_Parse lib pid of
             None \<Rightarrow> Inl ''invalid ID format''
           | Some parsedID \<Rightarrow> Inr parsedID)"

text \<open>
  \<^verbatim>\<open>domain.UpdateProductRequest\<close>: each field is a pointer, \<open>None\<close> when the JSON body
  leaves the field out.
\<close>

record UpdateProductRequest =
  Req_Name :: "string option"
  Req_Description :: "string option"
  Req_Price :: "real option"
  Req_Stock :: "int option"

text \<open>
  The checks of \<^verbatim>\<open>validation.go\<close> on names and descriptions rest on regular expressions
  and on Unicode tables; they are taken as they come. The two numeric checks are written
  out.
\<close>

record validation =
  SanitizeInput :: "string \<Rightarrow> string"
  ValidateProductName :: "string \<Rightarrow> error option"
  ValidateDescription :: "string \<Rightarrow> error option"
  CheckSQLInjection :: "string \<Rightarrow> bool"

definition ValidatePrice :: "real \<Rightarrow> error option" where
  "ValidatePrice price =
     (if price < 0.01 then Some ''price must be greater than 0''
      else if price > 999999.99 then Some ''price is too high''
      else None)"

definition ValidateStock :: "int \<Rightarrow> error option" where
  "ValidateStock stock =
     (if stock < 0 then Some ''stock cannot be negative''
      else if stock > 999999 then Some ''stock value is too high''
      else None)"

definition bad_request :: "string \<Rightarrow> string \<Rightarrow> response" where
  "bad_request e m = \<lparr>status = StatusBadRequest, payload = ErrorResponse e m\<rparr>"

text \<open>The zero values of \<^verbatim>\<open>uuid.UUID\<close> and \<^verbatim>\<open>time.Time\<close> (1 January of year 1).\<close>

definition uuid_Nil :: uuid where
  "uuid_Nil = UUID ''00000000-0000-0000-0000-000000000000''"

definition zero_time :: time where
  "zero_time = - 62135596800 * time_Second"

text \<open>\<^verbatim>\<open>&domain.Product{ID: id}\<close>: every other field has its zero value.\<close>

definition zero_Product :: "uuid \<Rightarrow> Product" where
  "zero_Product pid =
     \<lparr>Product_ID = pid, Product_Name = [], Product_Description = [], Product_Price = 0,
      Product_Stock = 0, Product_UserID = uuid_Nil, Product_CreatedAt = zero_time,
      Product_UpdatedAt = zero_time\<rparr>"

text \<open>The four blocks of \<^verbatim>\<open>Update\<close> that check the fields the request carries.\<close>

definition check_Name :: "validation \<Rightarrow> string option \<Rightarrow> response + string option" where
  "check_Name val name =
     (case name of
        None \<Rightarrow> Inr None
      | Some n \<Rightarrow>
          let n' = SanitizeInput val n in
          case ValidateProductName val n' of
            Some err \<Rightarrow> Inl (bad_request ''Validation Error'' (''Name: '' @ err))
          | None \<Rightarrow>
              if CheckSQLInjection val n'
              then Inl (bad_request ''Security Error'' ''Invalid name input detected'')
              else Inr (Some n'))"

definition check_Description :: "validation \<Rightarrow> string option \<Rightarrow> response + string option" where
  "check_Description val description =
     (case description of
        None \<Rightarrow> Inr None
      | Some d \<Rightarrow>
          let d' = SanitizeInput val d in
          case ValidateDescription val d' of
            Some err \<Rightarrow> Inl (bad_request ''Validation Error'' (''Description: '' @ err))
          | None \<Rightarrow>
              if CheckSQLInjection val d'
              then Inl (bad_request ''Security Error'' ''Invalid description input detected'')
              else Inr (Some d'))"

definition check_Price :: "real option \<Rightarrow> response option" where
  "check_Price price =
     (case price of
        None \<Rightarrow> None
      | Some p \<Rightarrow>
          (case ValidatePrice p of
             Some err \<Rightarrow> Some (bad_request ''Validation Error'' (''Price: '' @ err))
           | None \<Rightarrow> None))"

definition check_Stock :: "int option \<Rightarrow> response option" where
  "check_Stock stock =
     (case stock of
        None \<Rightarrow> None
      | Some s \<Rightarrow>
          (case ValidateStock s of
             Some err \<Rightarrow> Some (bad_request ''Validation Error'' (''Stock: '' @ err))
           | None \<Rightarrow> None))"

text \<open>The product \<^verbatim>\<open>Update\<close> hands to the service: only the carried fields are set.\<close>

definition product_of_request ::
  "uuid \<Rightarrow> string option \<Rightarrow> string option \<Rightarrow> real option \<Rightarrow> int option \<Rightarrow> Product" where
  "product_of_request pid name description price stock =
     (let p0 = zero_Product pid;
          p1 = (case name of Some n \<Rightarrow> p0\<lparr>Product_Name := n\<rparr> | None \<Rightarrow> p0);
          p2 = (case description of Some d \<Rightarrow> p1\<lparr>Product_Description := d\<rparr> | None \<Rightarrow> p1);
          p3 = (case price of Some x \<Rightarrow> p2\<lparr>Product_Price := x\<rparr> | None \<Rightarrow> p2)
      in (case stock of Some s \<Rightarrow> p3\<lparr>Product_Stock := s\<rparr> | None \<Rightarrow> p3))"

text \<open>
  \<^verbatim>\<open>ProductHandler.GetByID\<close>, \<^verbatim>\<open>Update\<close> and \<^verbatim>\<open>Delete\<close>. \<open>idStr\<close> is the path parameter,
  \<open>userID\<close> the context's \<^verbatim>\<open>user_id\<close>, \<open>bound\<close> what \<^verbatim>\<open>ShouldBindJSON\<close> gives: the
  request or the binding error.
\<close>

definition ProductHandler_GetByID ::
  "library \<Rightarrow> database \<Rightarrow> redis \<Rightarrow> time \<Rightarrow> string \<Rightarrow> uuid \<Rightarrow> response \<times> redis" where
  "ProductHandler_GetByID lib db r now idStr userID =
     (case validateUUID lib idStr of
        Inl err \<Rightarrow> (bad_request ''Bad Request'' err, r)
      | Inr parsedID \<Rightarrow>
          (case ProductService_GetByID db r now parsedID userID of
             (Inl err, r') \<Rightarrow>
               (\<lparr>status = StatusNotFound, payload = ErrorResponse ''Not Found'' err\<rparr>, r')
           | (Inr product, r') \<Rightarrow> (\<lparr>status = StatusOK, payload = ProductBody product\<rparr>, r')))"

definition ProductHandler_Update ::
  "library \<Rightarrow> validation \<Rightarrow> database \<Rightarrow> redis \<Rightarrow> time \<Rightarrow> string \<Rightarrow>
   error + UpdateProductRequest \<Rightarrow> uuid \<Rightarrow> response \<times> database \<times> redis" where
  "ProductHandler_Update lib val db r now idStr bound userID =
     (case validateUUID lib idStr of
        Inl err \<Rightarrow> (bad_request ''Bad Request'' err, db, r)
      | Inr parsedID \<Rightarrow>
          (case bound of
             Inl err \<Rightarrow> (bad_request ''Bad Request'' (''Invalid request format: '' @ err), db, r)
           | Inr req \<Rightarrow>
               (case check_Name val (Req_Name req) of
                  Inl resp \<Rightarrow> (resp, db, r)
                | Inr name \<Rightarrow>
                    (case check_Description val (Req_Description req) of
                       Inl resp \<Rightarrow> (resp, db, r)
                     | Inr description \<Rightarrow>
                         (case check_Price (Req_Price req) of
                            Some resp \<Rightarrow> (resp, db, r)
                          | None \<Rightarrow>
                              (case check_Stock (Req_Stock req) of
                                 Some resp \<Rightarrow> (resp, db, r)
                               | None \<Rightarrow>
                                   (case ProductService_Update db r now
                                           (product_of_request parsedID name description
                                              (Req_Price req) (Req_Stock req)) userID of
                                      (Some err, db', r') \<Rightarrow>
                                        (bad_request ''Update Failed'' err, db', r')
                                    | (None, db', r') \<Rightarrow>
                                        (\<lparr>status = StatusOK,
                                          payload = MessageH ''Product updated successfully''\<rparr>,
                                         db', r'))))))))"

definition ProductHandler_Delete ::
  "library \<Rightarrow> database \<Rightarrow> redis \<Rightarrow> time \<Rightarrow> string \<Rightarrow> uuid \<Rightarrow> response \<times> database \<times> redis" where
  "ProductHandler_Delete lib db r now idStr userID =
     (case validateUUID lib idStr of
        Inl err \<Rightarrow> (bad_request ''Bad Request'' err, db, r)
      | Inr parsedID \<Rightarrow>
          (case ProductService_Delete db r now parsedID userID of
             (Some err, db', r') \<Rightarrow> (bad_request ''Deletion Failed'' err, db', r')
           | (None, db', r') \<Rightarrow>
               (\<lparr>status = StatusOK, payload = MessageH ''Product deleted successfully''\<rparr>,
                db', r')))"

section \<open>Refreshing a token (user_service.go)\<close>




section \<open>Product queries and their cache keys (product_service.go)\<close>

text \<open>
  The optional fields of a query are Go pointers. A pointer is \<^verbatim>\<open>nil\<close> or an address
  together with the value stored there; two pointers to equal values at different
  addresses are different Go values.
\<close>

datatype 'a ptr = NilPtr | Ptr nat 'a

text \<open>
  A \<^verbatim>\<open>float64\<close> that \<^verbatim>\<open>strconv.ParseFloat\<close> returns is a finite number, the negative
  zero (from the text \<^verbatim>\<open>-0\<close>; \<open>Finite 0\<close> is the positive one), a NaN or an infinity.
  The two zeros are equal for Go's \<^verbatim>\<open>==\<close> and for the database.
\<close>

datatype float64 = Finite real | NegZero | NaN | PosInf | NegInf

text \<open>
  A \<^verbatim>\<open>time.Time\<close> that \<^verbatim>\<open>time.Parse(time.RFC3339, ...)\<close> returns is an instant
  together with the zone offset, in seconds, that the parsed text carried. Two such values
  with the same instant are the same time (\<^verbatim>\<open>t.Equal(u)\<close>) whatever their offsets are.
\<close>

record zoned_time =
  instant :: time
  zone_offset :: int

record ProductFilter =
  Name :: "string ptr"
  MinPrice :: "float64 ptr"
  MaxPrice :: "float64 ptr"
  MinStock :: "int ptr"
  MaxStock :: "int ptr"
  CreatedFrom :: "zoned_time ptr"
  CreatedTo :: "zoned_time ptr"
  UpdatedFrom :: "zoned_time ptr"
  UpdatedTo :: "zoned_time ptr"

record SortField =
  Field :: string
  Direction :: string

record Pagination =
  Page :: int
  PageSize :: int

record CursorPagination =
  Cursor :: "string ptr"
  Cursor_PageSize :: int

text \<open>A slice is \<^verbatim>\<open>nil\<close> (\<open>None\<close>) or a list, possibly empty.\<close>

record ProductQuery =
  Query_Filter :: ProductFilter
  Query_Sort :: "SortField list option"
  Query_Pagination :: Pagination

record ProductQueryCursor =
  CursorQuery_Filter :: ProductFilter
  CursorQuery_Sort :: "SortField list option"
  CursorQuery_Pagination :: CursorPagination

text \<open>
  \<^verbatim>\<open>encoding/json\<close>: how a string, a finite number other than the negative zero, an
  integer and a time are written is the library's. A time is written with its zone
  offset, and one whose year is beyond 9999 is refused. The negative zero is written
  \<^verbatim>\<open>-0\<close>; a NaN and an infinity are refused.
\<close>

record json_encoding =
  enc_string :: "string \<Rightarrow> string"
  enc_number :: "real \<Rightarrow> string"
  enc_int :: "int \<Rightarrow> string"
  enc_time :: "zoned_time \<Rightarrow> string option"

fun enc_float64 :: "json_encoding \<Rightarrow> float64 \<Rightarrow> string option" where
  "enc_float64 enc (Finite x) = Some (enc_number enc x)"
| "enc_float64 enc NegZero = Some ''-0''"
| "enc_float64 enc v = None"

text \<open>A pointer is written as \<^verbatim>\<open>null\<close> or as the value it points to.\<close>

fun enc_ptr :: "('a \<Rightarrow> string option) \<Rightarrow> 'a ptr \<Rightarrow> string option" where
  "enc_ptr f NilPtr = Some ''null''"
| "enc_ptr f (Ptr a v) = f v"

fun join :: "string \<Rightarrow> string list \<Rightarrow> string" where
  "join sep [] = []"
| "join sep [x] = x"
| "join sep (x # y # ys) = x @ sep @ join sep (y # ys)"

text \<open>The members of an object in the order of the struct's fields; one failure fails all.\<close>

fun members :: "(string \<times> string option) list \<Rightarrow> string list option" where
  "members [] = Some []"
| "members ((k, None) # fs) = None"
| "members ((k, Some v) # fs) =
     map_option (\<lambda>ms. ([CHR 0x22] @ k @ [CHR 0x22] @ '':'' @ v) # ms) (members fs)"

definition object :: "(string \<times> string option) list \<Rightarrow> string option" where
  "object fs = map_option (\<lambda>ms. ''{'' @ join '','' ms @ ''}'') (members fs)"

fun elements :: "string option list \<Rightarrow> string list option" where
  "elements [] = Some []"
| "elements (None # xs) = None"
| "elements (Some x # xs) = map_option (\<lambda>ys. x # ys) (elements xs)"

definition marshal_ProductFilter :: "json_encoding \<Rightarrow> ProductFilter \<Rightarrow> string option" where
  "marshal_ProductFilter enc f =
     object [(''name'', enc_ptr (\<lambda>s. Some (enc_string enc s)) (Name f)),
             (''min_price'', enc_ptr (enc_float64 enc) (MinPrice f)),
             (''max_price'', enc_ptr (enc_float64 enc) (MaxPrice f)),
             (''min_stock'', enc_ptr (\<lambda>n. Some (enc_int enc n)) (MinStock f)),
             (''max_stock'', enc_ptr (\<lambda>n. Some (enc_int enc n)) (MaxStock f)),
             (''created_from'', enc_ptr (enc_time enc) (CreatedFrom f)),
             (''created_to'', enc_ptr (enc_time enc) (CreatedTo f)),
             (''updated_from'', enc_ptr (enc_time enc) (UpdatedFrom f)),
             (''updated_to'', enc_ptr (enc_time enc) (UpdatedTo f))]"

definition marshal_SortField :: "json_encoding \<Rightarrow> SortField \<Rightarrow> string option" where
  "marshal_SortField enc s =
     object [(''field'', Some (enc_string enc (Field s))),
             (''direction'', Some (enc_string enc (Direction s)))]"

definition marshal_Sort :: "json_encoding \<Rightarrow> SortField list option \<Rightarrow> string option" where
  "marshal_Sort enc sortFields =
     (case sortFields of
        None \<Rightarrow> Some ''null''
      | Some sfs \<Rightarrow>
          map_option (\<lambda>xs. ''['' @ join '','' xs @ '']'')
            (elements (map (marshal_SortField enc) sfs)))"

definition marshal_Pagination :: "json_encoding \<Rightarrow> Pagination \<Rightarrow> string option" where
  "marshal_Pagination enc p =
     object [(''page'', Some (enc_int enc (Page p))),
             (''page_size'', Some (enc_int enc (PageSize p)))]"

definition marshal_CursorPagination :: "json_encoding \<Rightarrow> CursorPagination \<Rightarrow> string option" where
  "marshal_CursorPagination enc p =
     object [(''cursor'', enc_ptr (\<lambda>s. Some (enc_string enc s)) (Cursor p)),
             (''page_size'', Some (enc_int enc (Cursor_PageSize p)))]"

definition marshal_ProductQuery :: "json_encoding \<Rightarrow> ProductQuery \<Rightarrow> string option" where
  "marshal_ProductQuery enc q =
     object [(''filter'', marshal_ProductFilter enc (Query_Filter q)),
             (''sort'', marshal_Sort enc (Query_Sort q)),
             (''pagination'', marshal_Pagination enc (Query_Pagination q))]"

definition marshal_ProductQueryCursor :: "json_encoding \<Rightarrow> ProductQueryCursor \<Rightarrow> string option" where
  "marshal_ProductQueryCursor enc q =
     object [(''filter'', marshal_ProductFilter enc (CursorQuery_Filter q)),
             (''sort'', marshal_Sort enc (CursorQuery_Sort q)),
             (''pagination'', marshal_CursorPagination enc (CursorQuery_Pagination q))]"

text \<open>
  \<^verbatim>\<open>queryBytes, _ := json.Marshal(query)\<close>: when marshalling fails the error is dropped
  and the bytes are empty.
\<close>

definition bytes_or_empty :: "string option \<Rightarrow> string" where
  "bytes_or_empty m = (case m of None \<Rightarrow> [] | Some b \<Rightarrow> b)"

definition generateQueryCacheKey :: "json_encoding \<Rightarrow> uuid \<Rightarrow> ProductQuery \<Rightarrow> string" where
  "generateQueryCacheKey enc userID query =
     (let queryBytes = bytes_or_empty (marshal_ProductQuery enc query)
      in ''user_products_filtered:'' @ uuid_String userID @ '':'' @ queryBytes)"

definition generateCursorQueryCacheKey :: "json_encoding \<Rightarrow> uuid \<Rightarrow> ProductQueryCursor \<Rightarrow> string" where
  "generateCursorQueryCacheKey enc userID query =
     (let queryBytes = bytes_or_empty (marshal_ProductQueryCursor enc query)
      in ''user_products_cursor:'' @ uuid_String userID @ '':'' @ queryBytes)"

section \<open>When two queries are the same\<close>

fun deref :: "'a ptr \<Rightarrow> 'a option" where
  "deref NilPtr = None"
| "deref (Ptr a v) = Some v"

text \<open>
  Two queries are semantically identical, in the words of C6, when they have equal filter
  values, equal sort lists and equal pagination values. Pointers are compared by what
  they point to, numbers as numbers (the two zeros are one number), times as instants,
  and a sort slice as the list of its fields (a \<^verbatim>\<open>nil\<close> slice has none).
\<close>

fun is_zero :: "float64 \<Rightarrow> bool" where
  "is_zero (Finite x) = (x = 0)"
| "is_zero NegZero = True"
| "is_zero v = False"

definition same_number :: "float64 \<Rightarrow> float64 \<Rightarrow> bool" where
  "same_number a b = (a = b \<or> (is_zero a \<and> is_zero b))"

definition same_instant :: "zoned_time \<Rightarrow> zoned_time \<Rightarrow> bool" where
  "same_instant t u = (instant t = instant u)"

definition sort_list :: "SortField list option \<Rightarrow> SortField list" where
  "sort_list s = (case s of None \<Rightarrow> [] | Some sfs \<Rightarrow> sfs)"

definition same_filter :: "ProductFilter \<Rightarrow> ProductFilter \<Rightarrow> bool" where
  "same_filter f g =
     (deref (Name f) = deref (Name g)
      \<and> rel_option same_number (deref (MinPrice f)) (deref (MinPrice g))
      \<and> rel_option same_number (deref (MaxPrice f)) (deref (MaxPrice g))
      \<and> deref (MinStock f) = deref (MinStock g)
      \<and> deref (MaxStock f) = deref (MaxStock g)
      \<and> rel_option same_instant (deref (CreatedFrom f)) (deref (CreatedFrom g))
      \<and> rel_option same_instant (deref (CreatedTo f)) (deref (CreatedTo g))
      \<and> rel_option same_instant (deref (UpdatedFrom f)) (deref (UpdatedFrom g))
      \<and> rel_option same_instant (deref (UpdatedTo f)) (deref (UpdatedTo g)))"

definition same_query :: "ProductQuery \<Rightarrow> ProductQuery \<Rightarrow> bool" where
  "same_query p q =
     (same_filter (Query_Filter p) (Query_Filter q)
      \<and> sort_list (Query_Sort p) = sort_list (Query_Sort q)
      \<and> Query_Pagination p = Query_Pagination q)"

definition same_cursor_query :: "ProductQueryCursor \<Rightarrow> ProductQueryCursor \<Rightarrow> bool" where
  "same_cursor_query p q =
     (same_filter (CursorQuery_Filter p) (CursorQuery_Filter q)
      \<and> sort_list (CursorQuery_Sort p) = sort_list (CursorQuery_Sort q)
      \<and> deref (Cursor (CursorQuery_Pagination p)) = deref (Cursor (CursorQuery_Pagination q))
      \<and> Cursor_PageSize (CursorQuery_Pagination p) = Cursor_PageSize (CursorQuery_Pagination q))"

text \<open>
  The narrower relation of C6 as amended: two queries carry the same values in the same
  form. Pointers are still compared by what they point to, but a number keeps the sign of
  its zero, a time keeps its zone offset, and a \<^verbatim>\<open>nil\<close> sort slice is not an empty one.
\<close>

definition same_form_filter :: "ProductFilter \<Rightarrow> ProductFilter \<Rightarrow> bool" where
  "same_form_filter f g =
     (deref (Name f) = deref (Name g)
      \<and> deref (MinPrice f) = deref (MinPrice g)
      \<and> deref (MaxPrice f) = deref (MaxPrice g)
      \<and> deref (MinStock f) = deref (MinStock g)
      \<and> deref (MaxStock f) = deref (MaxStock g)
      \<and> deref (CreatedFrom f) = deref (CreatedFrom g)
      \<and> deref (CreatedTo f) = deref (CreatedTo g)
      \<and> deref (UpdatedFrom f) = deref (UpdatedFrom g)
      \<and> deref (UpdatedTo f) = deref (UpdatedTo g))"

definition same_form_query :: "ProductQuery \<Rightarrow> ProductQuery \<Rightarrow> bool" where
  "same_form_query p q =
     (same_form_filter (Query_Filter p) (Query_Filter q)
      \<and> Query_Sort p = Query_Sort q
      \<and> Query_Pagination p = Query_Pagination q)"

definition same_form_cursor_query :: "ProductQueryCursor \<Rightarrow> ProductQueryCursor \<Rightarrow> bool" where
  "same_form_cursor_query p q =
     (same_form_filter (CursorQuery_Filter p) (CursorQuery_Filter q)
      \<and> CursorQuery_Sort p = CursorQuery_Sort q
      \<and> deref (Cursor (CursorQuery_Pagination p)) = deref (Cursor (CursorQuery_Pagination q))
      \<and> Cursor_PageSize (CursorQuery_Pagination p) = Cursor_PageSize (CursorQuery_Pagination q))"

section \<open>The update rule as the claim words it\<close>

text \<open>
  What C10 says a successful update stores: name, description and price of the stored
  product stay when the incoming value is empty or not positive, the stock is taken
  whenever the incoming one is not negative, and \<^verbatim>\<open>UpdatedAt\<close> is the instant of the
  update.
\<close>

definition merged :: "Product \<Rightarrow> Product \<Rightarrow> time \<Rightarrow> Product" where
  "merged old product now =
     old\<lparr>Product_Name :=
           (if Product_Name product = [] then Product_Name old else Product_Name product),
         Product_Description :=
           (if Product_Description product = [] then Product_Description old
            else Product_Description product),
         Product_Price :=
           (if Product_Price product \<le> 0 then Product_Price old else Product_Price product),
         Product_Stock :=
           (if 0 \<le> Product_Stock product then Product_Stock product else Product_Stock old),
         Product_UpdatedAt := now\<rparr>"

section \<open>Example data\<close>

text \<open>
  A user with one session created at instant 0 for 24 hours; the write of the session
  reached the store 5 nanoseconds after the clock was read, so the keys outlive
  \<^verbatim>\<open>ExpiresAt\<close> by that much.
\<close>

definition ex_uid :: uuid where
  "ex_uid = UUID ''11111111-1111-1111-1111-111111111111''"

definition ex_other_uid :: uuid where
  "ex_other_uid = UUID ''22222222-2222-2222-2222-222222222222''"

definition ex_session :: Session where
  "ex_session =
     \<lparr>ID = ''s1'', UserID = ''11111111-1111-1111-1111-111111111111'', Email = ''a@x.com'',
      CreatedAt = 0, ExpiresAt = 86400000000000, IPAddress = ''10.0.0.1'',
      UserAgent = ''curl'', IsActive = True\<rparr>"

definition ex_store :: redis where
  "ex_store =
     \<lparr>reachable = True,
      entries = [(''session:s1'', JSession ex_session, Some 86400000000005),
                 (''user_sessions:11111111-1111-1111-1111-111111111111'', JString ''s1'',
                  Some 86400000000005)]\<rparr>"

text \<open>
  The libraries of the examples: three token texts (an access token and a refresh token
  issued at instant 0 for the session above, and a token signed with the secret that
  carries only \<^verbatim>\<open>user_id\<close>, \<^verbatim>\<open>session_id\<close> and an \<^verbatim>\<open>exp\<close> in the year 2100, and
  one signed with the secret that carries every claim of an access token but \<^verbatim>\<open>exp\<close>),
  two UUID texts, and a stand-in for the digest.
\<close>

definition ex_user :: User where
  "ex_user = \<lparr>User_ID = ex_uid, User_Email = ''a@x.com''\<rparr>"

definition ex_secret :: string where
  "ex_secret = ''secret''"

definition ex_bare_token :: jwt where
  "ex_bare_token =
     \<lparr>Method = HS256,
      Claims = [(''user_id'', VString ''11111111-1111-1111-1111-111111111111''),
                (''session_id'', VString ''s1''),
                (''exp'', VNumber 4102444800)],
      signed_with = ''secret''\<rparr>"

definition ex_noexp_token :: jwt where
  "ex_noexp_token =
     \<lparr>Method = HS256,
      Claims = [(''user_id'', VString ''11111111-1111-1111-1111-111111111111''),
                (''email'', VString ''a@x.com''),
                (''session_id'', VString ''s1''),
                (''type'', VString ''access'')],
      signed_with = ''secret''\<rparr>"

definition ex_lib :: library where
  "ex_lib =
     \<lparr>jwt_encode = (\<lambda>j. case map_of (Claims j) ''type'' of
                             Some (VString t) \<Rightarrow> ''tok.'' @ t
                           | _ \<Rightarrow> ''tok.bare''),
      jwt_decode = (\<lambda>s. if s = ''tok.access''
                         then Some (NewAccessToken 0 ex_user ''s1'' ex_secret)
                         else if s = ''tok.refresh''
                         then Some (NewRefreshToken 0 ex_user ''s1'' ex_secret)
                         else if s = ''tok.bare'' then Some ex_bare_token
                         else if s = ''tok.noexp'' then Some ex_noexp_token
                         else None),
      uuid_Parse = (\<lambda>s. if s = ''11111111-1111-1111-1111-111111111111''
                            \<or> s = ''22222222-2222-2222-2222-222222222222''
                         then Some (UUID s) else None),
      sha256_hex = (\<lambda>s. ''digest-of-'' @ s)\<rparr>"

text \<open>
  A product of the example user, the database that holds it, stand-ins for the checks on
  names and descriptions, a UUID parser that accepts every text of 36 characters, and a
  request that renames the product and carries nothing else.
\<close>

definition ex_product :: Product where
  "ex_product =
     \<lparr>Product_ID = UUID ''aaaaaaaa-aaaa-aaaa-aaaa-aaaaaaaaaaaa'', Product_Name = ''Widget'',
      Product_Description = ''A widget'', Product_Price = 29.99, Product_Stock = 7,
      Product_UserID = ex_uid, Product_CreatedAt = 1, Product_UpdatedAt = 2\<rparr>"

definition ex_db :: database where
  "ex_db = \<lparr>db_up = True, rows = [ex_product], users = [ex_user]\<rparr>"

definition ex_validation :: validation where
  "ex_validation =
     \<lparr>SanitizeInput = (\<lambda>s. s),
      ValidateProductName =
        (\<lambda>s. if length s < 2 then Some ''product name must be at least 2 characters long''
             else None),
      ValidateDescription = (\<lambda>s. None),
      CheckSQLInjection = (\<lambda>s. False)\<rparr>"

definition ex_product_lib :: library where
  "ex_product_lib = ex_lib\<lparr>uuid_Parse := (\<lambda>s. if length s = 36 then Some (UUID s) else None)\<rparr>"

definition ex_rename_request :: UpdateProductRequest where
  "ex_rename_request =
     \<lparr>Req_Name = Some ''Gadget'', Req_Description = None, Req_Price = None, Req_Stock = None\<rparr>"

text \<open>
  A stand-in for the JSON encoders of strings, numbers and times (the one time of the
  examples, midnight of 1 January 2024 in UTC, is written with the offset it carries),
  and queries as the handlers build them: a name, a lowest price, a creation bound, a
  sort slice that is never \<^verbatim>\<open>nil\<close>, and pointers at addresses that depend on the call.
\<close>

definition ex_enc :: json_encoding where
  "ex_enc =
     \<lparr>enc_string = (\<lambda>s. [CHR 0x22] @ s @ [CHR 0x22]),
      enc_number = (\<lambda>x. if x = 0 then ''0'' else if x = 20 then ''20'' else ''0.5''),
      enc_int = (\<lambda>n. if n = 1 then ''1'' else ''20''),
      enc_time = (\<lambda>t. if zone_offset t = 0
                       then Some ([CHR 0x22] @ ''2024-01-01T00:00:00Z'' @ [CHR 0x22])
                       else Some ([CHR 0x22] @ ''2024-01-01T01:00:00+01:00'' @ [CHR 0x22]))\<rparr>"

definition ex_midnight :: "int \<Rightarrow> zoned_time" where
  "ex_midnight offset = \<lparr>instant = 1704067200000000000, zone_offset = offset\<rparr>"

definition ex_filter :: "nat \<Rightarrow> float64 \<Rightarrow> int \<Rightarrow> ProductFilter" where
  "ex_filter base minPrice offset =
     \<lparr>Name = Ptr base ''widget'', MinPrice = Ptr (base + 8) minPrice, MaxPrice = NilPtr,
      MinStock = NilPtr, MaxStock = NilPtr, CreatedFrom = Ptr (base + 16) (ex_midnight offset),
      CreatedTo = NilPtr, UpdatedFrom = NilPtr, UpdatedTo = NilPtr\<rparr>"

definition ex_query :: "nat \<Rightarrow> float64 \<Rightarrow> int \<Rightarrow> SortField list option \<Rightarrow> ProductQuery" where
  "ex_query base minPrice offset sortFields =
     \<lparr>Query_Filter = ex_filter base minPrice offset,
      Query_Sort = sortFields,
      Query_Pagination = \<lparr>Page = 1, PageSize = 20\<rparr>\<rparr>"

definition ex_cursor_query ::
  "nat \<Rightarrow> float64 \<Rightarrow> int \<Rightarrow> SortField list option \<Rightarrow> ProductQueryCursor" where
  "ex_cursor_query base minPrice offset sortFields =
     \<lparr>CursorQuery_Filter = ex_filter base minPrice offset,
      CursorQuery_Sort = sortFields,
      CursorQuery_Pagination =
        \<lparr>Cursor = Ptr (base + 24) ''aaaaaaaa-aaaa-aaaa-aaaa-aaaaaaaaaaaa'',
         Cursor_PageSize = 20\<rparr>\<rparr>"

definition ex_sort :: "SortField list option" where
  "ex_sort = Some [\<lparr>Field = ''price'', Direction = ''asc''\<rparr>]"



section \<open>Deleting a session twice\<close>

lemma Get_Session_unreachable:
  "\<not> reachable r \<Longrightarrow> \<exists>e. CacheService_Get_Session r now key = Inl e"
  by (simp add: CacheService_Get_Session_def redis_Get_def)

lemma Delete_unreachable:
  "\<not> reachable r \<Longrightarrow> CacheService_Delete r key = (Some unavailable, r)"
  by (simp add: CacheService_Delete_def redis_Del_def)

lemma DeleteSession_unreachable:
  "\<not> reachable r \<Longrightarrow> DeleteSession r now sessionID = (Some unavailable, r)"
  using Get_Session_unreachable [of r now "session_key sessionID"]
  by (auto simp: DeleteSession_def Delete_unreachable)

lemma Delete_reachable:
  "reachable r \<Longrightarrow>
   CacheService_Delete r key = (None, r\<lparr>entries := AList.delete key (entries r)\<rparr>)"
  by (simp add: CacheService_Delete_def redis_Del_def)

lemma DeleteSession_reachable:
  assumes up: "reachable r"
  shows "\<exists>es. DeleteSession r now sessionID =
         (None, r\<lparr>entries := AList.delete (session_key sessionID) es\<rparr>)"
proof (cases "CacheService_Get_Session r now (session_key sessionID)")
  case (Inl err)
  with up show ?thesis
    by (intro exI [of _ "entries r"]) (simp add: DeleteSession_def Delete_reachable)
next
  case (Inr session)
  with up show ?thesis
    by (intro exI [of _ "AList.delete (user_sessions_key (UserID session)) (entries r)"])
       (simp add: DeleteSession_def Delete_reachable)
qed

lemma Get_Session_deleted:
  "\<exists>e. CacheService_Get_Session (r\<lparr>entries := AList.delete key es\<rparr>) now key = Inl e"
  by (simp add: CacheService_Get_Session_def redis_Get_def lookup_def AList.delete_conv')

lemma DeleteSession_after_delete:
  "reachable r \<Longrightarrow>
   DeleteSession (r\<lparr>entries := AList.delete (session_key sessionID) es\<rparr>) now sessionID =
     (None, r\<lparr>entries := AList.delete (session_key sessionID) es\<rparr>)"
  using Get_Session_deleted [where r = r and key = "session_key sessionID" and es = es and now = now]
  by (auto simp: DeleteSession_def Delete_reachable AList.delete_idem)

text \<open>
  C8. Deleting a session a second time, at any later reading of the clock, leaves the
  store exactly as the first deletion left it, and when the store can be reached the
  second call returns no error.
\<close>

theorem DeleteSession_idempotent:
  "snd (DeleteSession (snd (DeleteSession r t1 sessionID)) t2 sessionID) =
     snd (DeleteSession r t1 sessionID)
   \<and> (reachable r \<longrightarrow>
        fst (DeleteSession (snd (DeleteSession r t1 sessionID)) t2 sessionID) = None)"
proof (cases "reachable r")
  case False
  then show ?thesis by (simp add: DeleteSession_unreachable)
next
  case True
  then obtain es where
    "DeleteSession r t1 sessionID = (None, r\<lparr>entries := AList.delete (session_key sessionID) es\<rparr>)"
    using DeleteSession_reachable by blast
  with True show ?thesis by (simp add: DeleteSession_after_delete)
qed

theorem DeleteSession_idempotent_witness:
  "reachable ex_store
   \<and> DeleteSession ex_store 10 ''s1'' = (None, \<lparr>reachable = True, entries = []\<rparr>)
   \<and> DeleteSession (snd (DeleteSession ex_store 10 ''s1'')) 20 ''s1'' =
       (None, \<lparr>reachable = True, entries = []\<rparr>)"
  using DeleteSession_idempotent [of ex_store 10 "''s1''" 20]
  by (simp add: ex_store_def ex_session_def DeleteSession_def CacheService_Get_Session_def
      CacheService_Delete_def redis_Get_def redis_Del_def lookup_def session_key_def
      user_sessions_key_def)

section \<open>Lazy expiry of a session on read\<close>

lemma GetSession_expired:
  assumes "CacheService_Get_Session r now (session_key sessionID) = Inr session"
    and "ExpiresAt session < now"
  shows "GetSession r now sessionID =
           (Inl ''session expired'', snd (DeleteSession r now sessionID))"
  using assms by (simp add: GetSession_def)

lemma GetSession_not_after:
  assumes "CacheService_Get_Session r now (session_key sessionID) = Inr session"
    and "now \<le> ExpiresAt session"
  shows "GetSession r now sessionID = (Inr session, r)"
  using assms by (simp add: GetSession_def)

text \<open>
  C7. At the instant \<open>now = expires_at\<close> the stored session of the example is still
  in the store; \<^verbatim>\<open>GetSession\<close> returns it and deletes nothing, while \<^verbatim>\<open>IsSessionValid\<close>
  at the same instant reports the session as not valid.
\<close>

theorem GetSession_boundary_returns_session:
  "GetSession ex_store (ExpiresAt ex_session) ''s1'' = (Inr ex_session, ex_store)
   \<and> fst (IsSessionValid ex_store (ExpiresAt ex_session) ''s1'') = (False, None)"
  by (simp add: IsSessionValid_def GetSession_def CacheService_Get_Session_def redis_Get_def
      lookup_def session_key_def ex_store_def ex_session_def)

section \<open>The token blacklist\<close>

lemma Exists_after_Set:
  assumes "reachable r" and "0 < d" and "now < t0 + d"
  shows "CacheService_Exists (snd (CacheService_Set r t0 key v d)) now key = Inr True"
  using assms
  by (simp add: CacheService_Exists_def CacheService_Set_def redis_Set_def redis_Exists_def
      lookup_def AList.update_conv')

lemma Exists_other_key:
  assumes "key' \<noteq> key"
  shows "CacheService_Exists (snd (CacheService_Set r t0 key v d)) now key' =
         CacheService_Exists r now key'"
  using assms
  by (simp add: CacheService_Exists_def CacheService_Set_def redis_Set_def redis_Exists_def
      lookup_def AList.update_conv' Let_def)

lemma blacklist_ttl_pos: "0 < 24 * time_Hour"
  by (simp add: time_Hour_def time_Second_def)

text \<open>
  C4. On a reachable store, and while the 24 hours of the entry run, a token that was
  blacklisted is reported blacklisted; a token with another digest is reported exactly as
  before the write, so one that was not blacklisted still is not; and what the write adds
  is one flag under the digest, never the token itself.
\<close>

theorem blacklist_round_trip:
  assumes "reachable r" and "now < t0 + 24 * time_Hour"
  shows "IsTokenBlacklisted lib (snd (BlacklistToken lib r t0 t)) now t = (True, None)
    \<and> (hashToken lib t2 \<noteq> hashToken lib t \<longrightarrow>
         IsTokenBlacklisted lib (snd (BlacklistToken lib r t0 t)) now t2 =
         IsTokenBlacklisted lib r now t2)
    \<and> entries (snd (BlacklistToken lib r t0 t)) =
        AList.update (''blacklist:'' @ sha256_hex lib t) (JBool True, Some (t0 + 24 * time_Hour))
          (entries r)"
proof (intro conjI impI)
  show "IsTokenBlacklisted lib (snd (BlacklistToken lib r t0 t)) now t = (True, None)"
    using Exists_after_Set [OF assms(1) blacklist_ttl_pos assms(2)]
    by (simp add: IsTokenBlacklisted_def BlacklistToken_def)
next
  assume "hashToken lib t2 \<noteq> hashToken lib t"
  then show "IsTokenBlacklisted lib (snd (BlacklistToken lib r t0 t)) now t2 =
         IsTokenBlacklisted lib r now t2"
    by (simp add: IsTokenBlacklisted_def BlacklistToken_def Exists_other_key)
next
  show "entries (snd (BlacklistToken lib r t0 t)) =
        AList.update (''blacklist:'' @ sha256_hex lib t) (JBool True, Some (t0 + 24 * time_Hour))
          (entries r)"
    using assms(1) blacklist_ttl_pos
    by (simp add: BlacklistToken_def hashToken_def CacheService_Set_def redis_Set_def)
qed

theorem blacklist_round_trip_witness:
  "reachable ex_store \<and> (5::int) < 0 + 24 * time_Hour
   \<and> hashToken ex_lib ''tok.refresh'' \<noteq> hashToken ex_lib ''tok.access''
   \<and> IsTokenBlacklisted ex_lib ex_store 5 ''tok.refresh'' = (False, None)
   \<and> IsTokenBlacklisted ex_lib (snd (BlacklistToken ex_lib ex_store 0 ''tok.access'')) 5
         ''tok.access'' = (True, None)
   \<and> IsTokenBlacklisted ex_lib (snd (BlacklistToken ex_lib ex_store 0 ''tok.access'')) 5
         ''tok.refresh'' = (False, None)"
  using blacklist_round_trip [of ex_store 5 0 ex_lib "''tok.access''" "''tok.refresh''"]
  by (simp add: ex_store_def ex_lib_def hashToken_def time_Hour_def time_Second_def
      IsTokenBlacklisted_def CacheService_Exists_def redis_Exists_def lookup_def)

section \<open>Blacklist entries against token lifetimes\<close>

lemma Unix_le: "Unix t * time_Second \<le> t"
  by (simp add: Unix_def time_Second_def)

lemma access_token_valid_before:
  assumes "jwt_Validate now (Claims (NewAccessToken issued user sessionID jwtSecret)) = None"
  shows "now < issued + time_Hour"
proof -
  from assms have "now < Unix (issued + time_Hour) * time_Second"
    by (simp add: jwt_Validate_def NewAccessToken_def split: if_splits)
  with Unix_le [of "issued + time_Hour"] show ?thesis by linarith
qed

text \<open>
  C2, as amended. The 24 hours of a blacklist entry cover the one hour of an access
  token: whenever an access token is blacklisted after it was issued, the entry is there
  at every instant at which the token's expiry still validates.
\<close>

theorem blacklist_outlives_access_token:
  assumes "reachable r" and "issued \<le> blacklisted"
    and "jwt_Validate now (Claims (NewAccessToken issued user sessionID jwtSecret)) = None"
  shows "time_Hour \<le> 24 * time_Hour
    \<and> IsTokenBlacklisted lib
         (snd (BlacklistToken lib r blacklisted
                 (generateAccessToken lib jwtSecret issued user sessionID)))
         now (generateAccessToken lib jwtSecret issued user sessionID) = (True, None)"
proof -
  have pos: "0 < time_Hour" by (simp add: time_Hour_def time_Second_def)
  from access_token_valid_before [OF assms(3)] assms(2) pos
  have "now < blacklisted + 24 * time_Hour" by linarith
  from Exists_after_Set [OF assms(1) blacklist_ttl_pos this] pos
  show ?thesis by (simp add: IsTokenBlacklisted_def BlacklistToken_def)
qed

theorem blacklist_outlives_access_token_witness:
  "reachable ex_store \<and> (0::int) \<le> 10
   \<and> jwt_Validate 1800000000000 (Claims (NewAccessToken 0 ex_user ''s1'' ex_secret)) = None
   \<and> generateAccessToken ex_lib ex_secret 0 ex_user ''s1'' = ''tok.access''
   \<and> IsTokenBlacklisted ex_lib (snd (BlacklistToken ex_lib ex_store 10 ''tok.access''))
        1800000000000 ''tok.access'' = (True, None)"
  using blacklist_outlives_access_token
          [of ex_store 0 10 1800000000000 ex_user "''s1''" ex_secret ex_lib]
  by (simp add: ex_store_def ex_lib_def generateAccessToken_def NewAccessToken_def
      jwt_Validate_def Unix_def time_Hour_def time_Second_def)

text \<open>
  The 24 hours do not cover the 7 days of a refresh token: blacklisted at the instant it
  was issued, the refresh token still parses as valid 48 hours later, when its entry is
  gone.
\<close>

theorem refresh_token_outlives_blacklist_entry:
  "24 * time_Hour < 7 * 24 * time_Hour
   \<and> generateRefreshToken ex_lib ex_secret 0 ex_user ''s1'' = ''tok.refresh''
   \<and> jwt_Parse ex_lib (48 * time_Hour) ''tok.refresh'' (keyfunc ex_secret) =
       Inr (NewRefreshToken 0 ex_user ''s1'' ex_secret)
   \<and> IsTokenBlacklisted ex_lib (snd (BlacklistToken ex_lib ex_store 0 ''tok.refresh''))
        (48 * time_Hour) ''tok.refresh'' = (False, None)"
  by (simp add: ex_store_def ex_lib_def generateRefreshToken_def NewRefreshToken_def
      jwt_Parse_def keyfunc_def jwt_Validate_def Unix_def time_Hour_def time_Second_def
      ex_secret_def IsTokenBlacklisted_def BlacklistToken_def hashToken_def
      CacheService_Exists_def CacheService_Set_def redis_Exists_def redis_Set_def lookup_def)

section \<open>The session listing endpoint\<close>

lemma count_active_filter:
  "count_active r now userID keys count =
     count + int (length (filter
       (\<lambda>key. case CacheService_Get_Session r now key of
                 Inr session \<Rightarrow>
                   UserID session = userID \<and> IsActive session \<and> now < ExpiresAt session
               | Inl err \<Rightarrow> False) keys))"
  by (induction keys arbitrary: count) (auto split: sum.splits)

lemma GetUserSessions_result:
  "GetUserSessions r now userID =
     (if reachable r
      then Inr \<lparr>ActiveSessions = [],
                TotalSessions = fst (GetActiveSessionsCount r now (uuid_String userID))\<rparr>
      else Inl (wrap ''failed to get session keys'' unavailable))"
  by (simp add: GetUserSessions_def GetActiveSessionsCount_def redis_Keys_def)

text \<open>
  C9. \<^verbatim>\<open>GET /auth/sessions\<close> answers 200 with an empty \<^verbatim>\<open>ActiveSessions\<close> list and the
  active-session count in \<^verbatim>\<open>TotalSessions\<close> whenever the store can be reached, and 500
  otherwise; no response of the service carries a session detail.
\<close>

theorem GetUserSessions_details_always_empty:
  "UserHandler_GetUserSessions r now userID =
     (if reachable r
      then \<lparr>status = StatusOK,
            payload = SessionsBody
              \<lparr>ActiveSessions = [],
               TotalSessions = fst (GetActiveSessionsCount r now (uuid_String userID))\<rparr>\<rparr>
      else \<lparr>status = StatusInternalServerError,
            payload = ErrorResponse ''Internal Server Error''
                        ''Failed to retrieve user sessions''\<rparr>)
   \<and> (\<forall>sessions. GetUserSessions r now userID = Inr sessions \<longrightarrow>
          ActiveSessions sessions = [])"
  by (simp add: UserHandler_GetUserSessions_def GetUserSessions_result)

theorem GetUserSessions_details_always_empty_witness:
  "reachable ex_store
   \<and> GetActiveSessionsCount ex_store 5 (uuid_String ex_uid) = (1, None)
   \<and> UserHandler_GetUserSessions ex_store 5 ex_uid =
       \<lparr>status = 200, payload = SessionsBody \<lparr>ActiveSessions = [], TotalSessions = 1\<rparr>\<rparr>"
  using GetUserSessions_details_always_empty [of ex_store 5 ex_uid]
  by (simp add: ex_store_def ex_session_def ex_uid_def GetActiveSessionsCount_def
      redis_Keys_def CacheService_Get_Session_def redis_Get_def lookup_def StatusOK_def)

section \<open>Updating a product\<close>

lemma find_Some_holds: "find P xs = Some x \<Longrightarrow> P x"
  by (induction xs) (auto split: if_splits)

lemma find_replace:
  assumes "find (\<lambda>p. Product_ID p = k) xs = Some old" and "Product_ID e = k"
  shows "find (\<lambda>p. Product_ID p = k) (map (\<lambda>p. if Product_ID p = k then e else p) xs) = Some e"
  using assms by (induction xs) (auto split: if_splits)

lemma Repository_Update_existing:
  assumes "find (\<lambda>p. Product_ID p = Product_ID e) (rows db) = Some old"
    and "GenericRepository_Update db e = (None, db')"
  shows "find (\<lambda>p. Product_ID p = Product_ID e) (rows db') = Some e"
  using assms find_replace [of "Product_ID e" "rows db" old e]
  by (auto simp: GenericRepository_Update_def split: if_splits)

lemma Service_Update_success:
  assumes "ProductService_Update db r now product userID = (None, db', r')"
  shows "\<exists>old. find (\<lambda>p. Product_ID p = Product_ID product) (rows db) = Some old
           \<and> Product_UserID old = userID
           \<and> find (\<lambda>p. Product_ID p = Product_ID product) (rows db') =
               Some (merged old product now)"
proof -
  from assms obtain old where get: "ProductRepository_GetByID db (Product_ID product) = Inr old"
    by (auto simp: ProductService_Update_def split: sum.splits)
  then have found: "find (\<lambda>p. Product_ID p = Product_ID product) (rows db) = Some old"
    by (auto simp: ProductRepository_GetByID_def split: if_splits option.splits)
  then have oid: "Product_ID old = Product_ID product"
    by (rule find_Some_holds)
  from assms get have own: "Product_UserID old = userID"
    by (auto simp: ProductService_Update_def split: if_splits)
  have mid: "Product_ID (merged old product now) = Product_ID product"
    by (simp add: merged_def oid)
  from assms get own
  have "GenericRepository_Update db (merged old product now) = (None, db')"
    by (auto simp: ProductService_Update_def merged_def Let_def not_less
             split: if_splits prod.splits option.splits)
  with found mid
  have "find (\<lambda>p. Product_ID p = Product_ID product) (rows db') = Some (merged old product now)"
    using Repository_Update_existing [of "merged old product now" db old db'] by simp
  with found own show ?thesis by blast
qed

lemma product_of_request_no_stock:
  "Product_Stock (product_of_request pid name description price None) = 0
   \<and> Product_ID (product_of_request pid name description price stock) = pid"
  by (simp add: product_of_request_def zero_Product_def Let_def split: option.splits)

lemma Handler_Update_OK:
  assumes "ProductHandler_Update lib val db r now idStr (Inr req) userID = (resp, db', r')"
    and "status resp = StatusOK"
  shows "\<exists>pid name description.
           uuid_Parse lib idStr = Some pid
           \<and> ProductService_Update db r now
                (product_of_request pid name description (Req_Price req) (Req_Stock req)) userID =
               (None, db', r')"
  using assms
  by (auto simp: ProductHandler_Update_def validateUUID_def bad_request_def StatusOK_def
        StatusBadRequest_def check_Price_def check_Stock_def check_Name_def
        check_Description_def Let_def
      split: sum.splits option.splits if_splits prod.splits)

text \<open>
  C10. A successful \<^verbatim>\<open>ProductService.Update\<close> stores the old product merged with the
  incoming one by the rule above; and a successful update request that leaves the stock
  out stores the stock 0 and the instant of the update.
\<close>

theorem Update_keeps_zero_valued_fields_but_overwrites_stock:
  "(ProductService_Update db r now product userID = (None, db', r') \<longrightarrow>
      (\<exists>old. find (\<lambda>p. Product_ID p = Product_ID product) (rows db) = Some old
           \<and> find (\<lambda>p. Product_ID p = Product_ID product) (rows db') =
               Some (merged old product now)))
   \<and> (ProductHandler_Update lib val db r now idStr (Inr req) userID = (resp, db2, r2)
        \<and> status resp = StatusOK \<and> Req_Stock req = None \<longrightarrow>
      (\<exists>pid stored. uuid_Parse lib idStr = Some pid
           \<and> find (\<lambda>p. Product_ID p = pid) (rows db2) = Some stored
           \<and> Product_Stock stored = 0 \<and> Product_UpdatedAt stored = now))"
proof (intro conjI impI)
  assume "ProductService_Update db r now product userID = (None, db', r')"
  from Service_Update_success [OF this]
  show "\<exists>old. find (\<lambda>p. Product_ID p = Product_ID product) (rows db) = Some old
           \<and> find (\<lambda>p. Product_ID p = Product_ID product) (rows db') =
               Some (merged old product now)"
    by blast
next
  assume a: "ProductHandler_Update lib val db r now idStr (Inr req) userID = (resp, db2, r2)
        \<and> status resp = StatusOK \<and> Req_Stock req = None"
  then obtain pid name description where
    parse: "uuid_Parse lib idStr = Some pid" and
    upd: "ProductService_Update db r now
            (product_of_request pid name description (Req_Price req) None) userID =
            (None, db2, r2)"
    using Handler_Update_OK [of lib val db r now idStr req userID resp db2 r2] by auto
  let ?p = "product_of_request pid name description (Req_Price req) None"
  from Service_Update_success [OF upd] obtain old where
    "find (\<lambda>p. Product_ID p = Product_ID ?p) (rows db2) = Some (merged old ?p now)"
    by blast
  moreover have "Product_ID ?p = pid" and "Product_Stock ?p = 0"
    using product_of_request_no_stock by blast+
  ultimately have "find (\<lambda>p. Product_ID p = pid) (rows db2) = Some (merged old ?p now)
        \<and> Product_Stock (merged old ?p now) = 0
        \<and> Product_UpdatedAt (merged old ?p now) = now"
    by (simp add: merged_def)
  with parse show "\<exists>pid stored. uuid_Parse lib idStr = Some pid
           \<and> find (\<lambda>p. Product_ID p = pid) (rows db2) = Some stored
           \<and> Product_Stock stored = 0 \<and> Product_UpdatedAt stored = now"
    by blast
qed

lemma ex_update_run:
  "ProductHandler_Update ex_product_lib ex_validation ex_db ex_store 50
     ''aaaaaaaa-aaaa-aaaa-aaaa-aaaaaaaaaaaa'' (Inr ex_rename_request) ex_uid =
   (\<lparr>status = 200, payload = MessageH ''Product updated successfully''\<rparr>,
    ex_db\<lparr>rows := [ex_product\<lparr>Product_Name := ''Gadget'', Product_Stock := 0,
                                 Product_UpdatedAt := 50\<rparr>]\<rparr>,
    ex_store)"
  by (simp add: ProductHandler_Update_def validateUUID_def ex_product_lib_def ex_lib_def
      ex_validation_def ex_rename_request_def check_Name_def check_Description_def
      check_Price_def check_Stock_def product_of_request_def zero_Product_def
      ProductService_Update_def ProductRepository_GetByID_def ex_db_def ex_product_def
      GenericRepository_Update_def invalidateUserCache_def CacheService_Delete_def
      CacheService_DeletePattern_def redis_Del_def redis_Keys_def ex_store_def ex_uid_def
      StatusOK_def Let_def)

theorem Update_keeps_zero_valued_fields_but_overwrites_stock_witness:
  "ProductHandler_Update ex_product_lib ex_validation ex_db ex_store 50
     ''aaaaaaaa-aaaa-aaaa-aaaa-aaaaaaaaaaaa'' (Inr ex_rename_request) ex_uid =
   (\<lparr>status = 200, payload = MessageH ''Product updated successfully''\<rparr>,
    ex_db\<lparr>rows := [ex_product\<lparr>Product_Name := ''Gadget'', Product_Stock := 0,
                                 Product_UpdatedAt := 50\<rparr>]\<rparr>,
    ex_store)
   \<and> Req_Stock ex_rename_request = None
   \<and> Product_Stock ex_product = 7
   \<and> (\<exists>stored. find (\<lambda>p. Product_ID p = UUID ''aaaaaaaa-aaaa-aaaa-aaaa-aaaaaaaaaaaa'')
                    [ex_product\<lparr>Product_Name := ''Gadget'', Product_Stock := 0,
                                 Product_UpdatedAt := 50\<rparr>] = Some stored
          \<and> Product_Stock stored = 0 \<and> Product_UpdatedAt stored = 50)"
  using Update_keeps_zero_valued_fields_but_overwrites_stock
          [of ex_db ex_store 50 ex_product ex_uid ex_db ex_store ex_product_lib ex_validation
              "''aaaaaaaa-aaaa-aaaa-aaaa-aaaaaaaaaaaa''" ex_rename_request
              "\<lparr>status = 200, payload = MessageH ''Product updated successfully''\<rparr>"
              "ex_db\<lparr>rows := [ex_product\<lparr>Product_Name := ''Gadget'', Product_Stock := 0,
                                 Product_UpdatedAt := 50\<rparr>]\<rparr>"
              ex_store]
        ex_update_run
  by (simp add: ex_rename_request_def ex_product_def ex_product_lib_def StatusOK_def)

section \<open>Requests for a product of another user\<close>

lemma GetByID_found:
  "find (\<lambda>p. Product_ID p = pid) (rows db) = Some product \<Longrightarrow>
   ProductRepository_GetByID db pid = (if db_up db then Inr product else Inl db_error)"
  by (simp add: ProductRepository_GetByID_def)

lemma Service_Update_non_owner:
  assumes "find (\<lambda>p. Product_ID p = Product_ID product) (rows db) = Some existing"
    and "Product_UserID existing \<noteq> userID"
  shows "\<exists>err. ProductService_Update db r now product userID = (Some err, db, r)"
  using assms by (simp add: ProductService_Update_def GetByID_found)

lemma Service_Delete_non_owner:
  assumes "find (\<lambda>p. Product_ID p = pid) (rows db) = Some existing"
    and "Product_UserID existing \<noteq> userID"
  shows "\<exists>err. ProductService_Delete db r now pid userID = (Some err, db, r)"
  using assms by (simp add: ProductService_Delete_def GetByID_found)

lemma Service_GetByID_non_owner:
  assumes "find (\<lambda>p. Product_ID p = pid) (rows db) = Some existing"
    and "Product_UserID existing \<noteq> userID"
    and "CacheService_Get_Product r now
           (''product:'' @ uuid_String userID @ '':'' @ uuid_String pid) = Inl miss"
  shows "\<exists>err. ProductService_GetByID db r now pid userID = (Inl err, r)"
  using assms by (simp add: ProductService_GetByID_def GetByID_found)

lemma Handler_Update_status:
  assumes "\<And>product. Product_ID product = pid \<Longrightarrow>
             \<exists>err. ProductService_Update db r now product userID = (Some err, db, r)"
    and "uuid_Parse lib idStr = Some pid" and "idStr \<noteq> []"
  shows "status (fst (ProductHandler_Update lib val db r now idStr bound userID)) = StatusBadRequest
       \<and> snd (ProductHandler_Update lib val db r now idStr bound userID) = (db, r)"
proof (cases bound)
  case (Inl err)
  with assms(2,3) show ?thesis
    by (simp add: ProductHandler_Update_def validateUUID_def bad_request_def)
next
  case (Inr req)
  have svc: "\<And>name description.
      \<exists>err. ProductService_Update db r now
               (product_of_request pid name description (Req_Price req) (Req_Stock req)) userID =
             (Some err, db, r)"
    using assms(1) product_of_request_no_stock by blast
  show ?thesis
  proof (cases "check_Name val (Req_Name req)")
    case (Inl resp)
    then have "status resp = StatusBadRequest"
      by (auto simp: check_Name_def bad_request_def Let_def split: option.splits if_splits)
    with Inl Inr assms(2,3) show ?thesis
      by (simp add: ProductHandler_Update_def validateUUID_def)
  next
    case name: (Inr name)
    show ?thesis
    proof (cases "check_Description val (Req_Description req)")
      case (Inl resp)
      then have "status resp = StatusBadRequest"
        by (auto simp: check_Description_def bad_request_def Let_def
            split: option.splits if_splits)
      with Inl name Inr assms(2,3) show ?thesis
        by (simp add: ProductHandler_Update_def validateUUID_def)
    next
      case descr: (Inr description)
      show ?thesis
      proof (cases "check_Price (Req_Price req)")
        case (Some resp)
        then have "status resp = StatusBadRequest"
          by (auto simp: check_Price_def bad_request_def split: option.splits)
        with Some descr name Inr assms(2,3) show ?thesis
          by (simp add: ProductHandler_Update_def validateUUID_def)
      next
        case price: None
        show ?thesis
        proof (cases "check_Stock (Req_Stock req)")
          case (Some resp)
          then have "status resp = StatusBadRequest"
            by (auto simp: check_Stock_def bad_request_def split: option.splits)
          with Some price descr name Inr assms(2,3) show ?thesis
            by (simp add: ProductHandler_Update_def validateUUID_def)
        next
          case None
          from svc [of name description] obtain err where
            "ProductService_Update db r now
               (product_of_request pid name description (Req_Price req) (Req_Stock req)) userID =
             (Some err, db, r)" by blast
          with None price descr name Inr assms(2,3) show ?thesis
            by (simp add: ProductHandler_Update_def validateUUID_def bad_request_def)
        qed
      qed
    qed
  qed
qed

lemma GetByID_absent:
  "find (\<lambda>p. Product_ID p = pid) (rows db) = None \<Longrightarrow>
   ProductRepository_GetByID db pid =
     (if db_up db then Inl ''product not found'' else Inl db_error)"
  by (simp add: ProductRepository_GetByID_def)

lemma Handler_GetByID_error:
  assumes "uuid_Parse lib idStr = Some pid" and "idStr \<noteq> []"
    and "CacheService_Get_Product r now
           (''product:'' @ uuid_String userID @ '':'' @ uuid_String pid) = Inl miss"
    and "ProductRepository_GetByID db pid = Inl err
         \<or> (\<exists>product. ProductRepository_GetByID db pid = Inr product
                \<and> Product_UserID product \<noteq> userID \<and> err = ''unauthorized access to product'')"
  shows "ProductHandler_GetByID lib db r now idStr userID =
           (\<lparr>status = StatusNotFound, payload = ErrorResponse ''Not Found'' err\<rparr>, r)"
  using assms
  by (auto simp: ProductHandler_GetByID_def validateUUID_def ProductService_GetByID_def)

lemma Handler_Delete_error:
  assumes "uuid_Parse lib idStr = Some pid" and "idStr \<noteq> []"
    and "ProductRepository_GetByID db pid = Inl err
         \<or> (\<exists>product. ProductRepository_GetByID db pid = Inr product
                \<and> Product_UserID product \<noteq> userID \<and> err = ''unauthorized access to product'')"
  shows "ProductHandler_Delete lib db r now idStr userID =
           (\<lparr>status = StatusBadRequest, payload = ErrorResponse ''Deletion Failed'' err\<rparr>,
            db, r)"
  using assms
  by (auto simp: ProductHandler_Delete_def validateUUID_def ProductService_Delete_def
      bad_request_def)

lemma Handler_Update_error:
  assumes "uuid_Parse lib idStr = Some pid" and "idStr \<noteq> []"
    and "check_Name val (Req_Name req) = Inr name"
    and "check_Description val (Req_Description req) = Inr description"
    and "check_Price (Req_Price req) = None" and "check_Stock (Req_Stock req) = None"
    and "ProductRepository_GetByID db pid = Inl err
         \<or> (\<exists>product. ProductRepository_GetByID db pid = Inr product
                \<and> Product_UserID product \<noteq> userID \<and> err = ''unauthorized access to product'')"
  shows "ProductHandler_Update lib val db r now idStr (Inr req) userID =
           (\<lparr>status = StatusBadRequest, payload = ErrorResponse ''Update Failed'' err\<rparr>,
            db, r)"
proof -
  have "Product_ID (product_of_request pid name description (Req_Price req) (Req_Stock req)) = pid"
    using product_of_request_no_stock by blast
  with assms show ?thesis
    by (auto simp: ProductHandler_Update_def validateUUID_def ProductService_Update_def
        bad_request_def)
qed

text \<open>
  C5, as amended. When the product exists, belongs to another user and the caller's own
  cache key holds no product, reading it answers 404, updating it answers 400 whatever
  the body is, deleting it answers 400, and neither the database nor the cache changes.
  With the database up, the message of the answer is \<^verbatim>\<open>unauthorized access to product\<close>
  (for an update, when the body passes the handler's own checks), whereas the same
  requests for an identifier that no product has get the same statuses with the message
  \<^verbatim>\<open>product not found\<close>: the answer tells a non-owner that the product exists.
\<close>

theorem non_owner_gets_404_on_read_and_400_on_write:
  assumes "uuid_Parse lib idStr = Some pid" and "idStr \<noteq> []"
    and "find (\<lambda>p. Product_ID p = pid) (rows db) = Some existing"
    and "Product_UserID existing \<noteq> userID"
    and "CacheService_Get_Product r now
           (''product:'' @ uuid_String userID @ '':'' @ uuid_String pid) = Inl miss"
  shows "status (fst (ProductHandler_GetByID lib db r now idStr userID)) = StatusNotFound
     \<and> status (fst (ProductHandler_Update lib val db r now idStr bound userID)) = StatusBadRequest
     \<and> status (fst (ProductHandler_Delete lib db r now idStr userID)) = StatusBadRequest
     \<and> snd (ProductHandler_GetByID lib db r now idStr userID) = r
     \<and> snd (ProductHandler_Update lib val db r now idStr bound userID) = (db, r)
     \<and> snd (ProductHandler_Delete lib db r now idStr userID) = (db, r)
     \<and> (db_up db \<longrightarrow>
          fst (ProductHandler_GetByID lib db r now idStr userID) =
            \<lparr>status = StatusNotFound,
             payload = ErrorResponse ''Not Found'' ''unauthorized access to product''\<rparr>
          \<and> fst (ProductHandler_Delete lib db r now idStr userID) =
            \<lparr>status = StatusBadRequest,
             payload = ErrorResponse ''Deletion Failed'' ''unauthorized access to product''\<rparr>
          \<and> (check_Name val (Req_Name req) = Inr name
               \<and> check_Description val (Req_Description req) = Inr description
               \<and> check_Price (Req_Price req) = None \<and> check_Stock (Req_Stock req) = None \<longrightarrow>
              fst (ProductHandler_Update lib val db r now idStr (Inr req) userID) =
                \<lparr>status = StatusBadRequest,
                 payload = ErrorResponse ''Update Failed'' ''unauthorized access to product''\<rparr>))
     \<and> (db_up db \<and> uuid_Parse lib absentStr = Some absent \<and> absentStr \<noteq> []
         \<and> find (\<lambda>p. Product_ID p = absent) (rows db) = None
         \<and> CacheService_Get_Product r now
              (''product:'' @ uuid_String userID @ '':'' @ uuid_String absent) = Inl miss \<longrightarrow>
          fst (ProductHandler_GetByID lib db r now absentStr userID) =
            \<lparr>status = StatusNotFound,
             payload = ErrorResponse ''Not Found'' ''product not found''\<rparr>
          \<and> fst (ProductHandler_Delete lib db r now absentStr userID) =
            \<lparr>status = StatusBadRequest,
             payload = ErrorResponse ''Deletion Failed'' ''product not found''\<rparr>
          \<and> (check_Name val (Req_Name req) = Inr name
               \<and> check_Description val (Req_Description req) = Inr description
               \<and> check_Price (Req_Price req) = None \<and> check_Stock (Req_Stock req) = None \<longrightarrow>
              fst (ProductHandler_Update lib val db r now absentStr (Inr req) userID) =
                \<lparr>status = StatusBadRequest,
                 payload = ErrorResponse ''Update Failed'' ''product not found''\<rparr>))"
proof -
  from Service_GetByID_non_owner [OF assms(3,4,5)] obtain e1 where
    "ProductService_GetByID db r now pid userID = (Inl e1, r)" by blast
  with assms(1,2)
  have get: "status (fst (ProductHandler_GetByID lib db r now idStr userID)) = StatusNotFound
     \<and> snd (ProductHandler_GetByID lib db r now idStr userID) = r"
    by (simp add: ProductHandler_GetByID_def validateUUID_def)
  from Service_Delete_non_owner [OF assms(3,4)] obtain e2 where
    "ProductService_Delete db r now pid userID = (Some e2, db, r)" by blast
  with assms(1,2)
  have del: "status (fst (ProductHandler_Delete lib db r now idStr userID)) = StatusBadRequest
     \<and> snd (ProductHandler_Delete lib db r now idStr userID) = (db, r)"
    by (simp add: ProductHandler_Delete_def validateUUID_def bad_request_def)
  have "\<And>product. Product_ID product = pid \<Longrightarrow>
          \<exists>err. ProductService_Update db r now product userID = (Some err, db, r)"
    using Service_Update_non_owner assms(3,4) by blast
  from Handler_Update_status [OF this assms(1,2)]
  have upd: "status (fst (ProductHandler_Update lib val db r now idStr bound userID)) =
               StatusBadRequest
     \<and> snd (ProductHandler_Update lib val db r now idStr bound userID) = (db, r)" .
  have owned: "db_up db \<longrightarrow>
          fst (ProductHandler_GetByID lib db r now idStr userID) =
            \<lparr>status = StatusNotFound,
             payload = ErrorResponse ''Not Found'' ''unauthorized access to product''\<rparr>
          \<and> fst (ProductHandler_Delete lib db r now idStr userID) =
            \<lparr>status = StatusBadRequest,
             payload = ErrorResponse ''Deletion Failed'' ''unauthorized access to product''\<rparr>
          \<and> (check_Name val (Req_Name req) = Inr name
               \<and> check_Description val (Req_Description req) = Inr description
               \<and> check_Price (Req_Price req) = None \<and> check_Stock (Req_Stock req) = None \<longrightarrow>
              fst (ProductHandler_Update lib val db r now idStr (Inr req) userID) =
                \<lparr>status = StatusBadRequest,
                 payload = ErrorResponse ''Update Failed'' ''unauthorized access to product''\<rparr>)"
  proof (intro impI conjI)
    assume up: "db_up db"
    with assms(3,4) have other:
      "ProductRepository_GetByID db pid = Inl ''unauthorized access to product''
       \<or> (\<exists>product. ProductRepository_GetByID db pid = Inr product
              \<and> Product_UserID product \<noteq> userID
              \<and> ''unauthorized access to product'' = ''unauthorized access to product'')"
      by (simp add: GetByID_found)
    from Handler_GetByID_error [OF assms(1,2,5) other]
    show "fst (ProductHandler_GetByID lib db r now idStr userID) =
            \<lparr>status = StatusNotFound,
             payload = ErrorResponse ''Not Found'' ''unauthorized access to product''\<rparr>"
      by simp
    from Handler_Delete_error [OF assms(1,2) other]
    show "fst (ProductHandler_Delete lib db r now idStr userID) =
            \<lparr>status = StatusBadRequest,
             payload = ErrorResponse ''Deletion Failed'' ''unauthorized access to product''\<rparr>"
      by simp
    assume "check_Name val (Req_Name req) = Inr name
               \<and> check_Description val (Req_Description req) = Inr description
               \<and> check_Price (Req_Price req) = None \<and> check_Stock (Req_Stock req) = None"
    with Handler_Update_error [OF assms(1,2) _ _ _ _ other, of val req name description r now]
    show "fst (ProductHandler_Update lib val db r now idStr (Inr req) userID) =
                \<lparr>status = StatusBadRequest,
                 payload = ErrorResponse ''Update Failed'' ''unauthorized access to product''\<rparr>"
      by simp
  qed
  have missing: "db_up db \<and> uuid_Parse lib absentStr = Some absent \<and> absentStr \<noteq> []
         \<and> find (\<lambda>p. Product_ID p = absent) (rows db) = None
         \<and> CacheService_Get_Product r now
              (''product:'' @ uuid_String userID @ '':'' @ uuid_String absent) = Inl miss \<longrightarrow>
          fst (ProductHandler_GetByID lib db r now absentStr userID) =
            \<lparr>status = StatusNotFound,
             payload = ErrorResponse ''Not Found'' ''product not found''\<rparr>
          \<and> fst (ProductHandler_Delete lib db r now absentStr userID) =
            \<lparr>status = StatusBadRequest,
             payload = ErrorResponse ''Deletion Failed'' ''product not found''\<rparr>
          \<and> (check_Name val (Req_Name req) = Inr name
               \<and> check_Description val (Req_Description req) = Inr description
               \<and> check_Price (Req_Price req) = None \<and> check_Stock (Req_Stock req) = None \<longrightarrow>
              fst (ProductHandler_Update lib val db r now absentStr (Inr req) userID) =
                \<lparr>status = StatusBadRequest,
                 payload = ErrorResponse ''Update Failed'' ''product not found''\<rparr>)"
  proof (intro impI conjI)
    assume a: "db_up db \<and> uuid_Parse lib absentStr = Some absent \<and> absentStr \<noteq> []
         \<and> find (\<lambda>p. Product_ID p = absent) (rows db) = None
         \<and> CacheService_Get_Product r now
              (''product:'' @ uuid_String userID @ '':'' @ uuid_String absent) = Inl miss"
    then have p: "uuid_Parse lib absentStr = Some absent" and ne: "absentStr \<noteq> []"
      and c: "CacheService_Get_Product r now
              (''product:'' @ uuid_String userID @ '':'' @ uuid_String absent) = Inl miss"
      by simp_all
    from a have nf:
      "ProductRepository_GetByID db absent = Inl ''product not found''
       \<or> (\<exists>product. ProductRepository_GetByID db absent = Inr product
              \<and> Product_UserID product \<noteq> userID
              \<and> ''product not found'' = ''unauthorized access to product'')"
      by (simp add: GetByID_absent)
    from Handler_GetByID_error [OF p ne c nf]
    show "fst (ProductHandler_GetByID lib db r now absentStr userID) =
            \<lparr>status = StatusNotFound,
             payload = ErrorResponse ''Not Found'' ''product not found''\<rparr>"
      by simp
    from Handler_Delete_error [OF p ne nf]
    show "fst (ProductHandler_Delete lib db r now absentStr userID) =
            \<lparr>status = StatusBadRequest,
             payload = ErrorResponse ''Deletion Failed'' ''product not found''\<rparr>"
      by simp
    assume "check_Name val (Req_Name req) = Inr name
               \<and> check_Description val (Req_Description req) = Inr description
               \<and> check_Price (Req_Price req) = None \<and> check_Stock (Req_Stock req) = None"
    with Handler_Update_error [OF p ne _ _ _ _ nf, of val req name description r now]
    show "fst (ProductHandler_Update lib val db r now absentStr (Inr req) userID) =
                \<lparr>status = StatusBadRequest,
                 payload = ErrorResponse ''Update Failed'' ''product not found''\<rparr>"
      by simp
  qed
  from get upd del owned missing show ?thesis by simp
qed

theorem non_owner_gets_404_on_read_and_400_on_write_witness:
  "uuid_Parse ex_product_lib ''aaaaaaaa-aaaa-aaaa-aaaa-aaaaaaaaaaaa'' =
     Some (UUID ''aaaaaaaa-aaaa-aaaa-aaaa-aaaaaaaaaaaa'')
   \<and> find (\<lambda>p. Product_ID p = UUID ''aaaaaaaa-aaaa-aaaa-aaaa-aaaaaaaaaaaa'') (rows ex_db) =
       Some ex_product
   \<and> Product_UserID ex_product \<noteq> ex_other_uid
   \<and> db_up ex_db
   \<and> find (\<lambda>p. Product_ID p = UUID ''bbbbbbbb-bbbb-bbbb-bbbb-bbbbbbbbbbbb'') (rows ex_db) = None
   \<and> fst (ProductHandler_GetByID ex_product_lib ex_db ex_store 50
             ''aaaaaaaa-aaaa-aaaa-aaaa-aaaaaaaaaaaa'' ex_other_uid) =
       \<lparr>status = 404, payload = ErrorResponse ''Not Found'' ''unauthorized access to product''\<rparr>
   \<and> fst (ProductHandler_Update ex_product_lib ex_validation ex_db ex_store 50
             ''aaaaaaaa-aaaa-aaaa-aaaa-aaaaaaaaaaaa'' (Inr ex_rename_request) ex_other_uid) =
       \<lparr>status = 400,
        payload = ErrorResponse ''Update Failed'' ''unauthorized access to product''\<rparr>
   \<and> fst (ProductHandler_Delete ex_product_lib ex_db ex_store 50
             ''aaaaaaaa-aaaa-aaaa-aaaa-aaaaaaaaaaaa'' ex_other_uid) =
       \<lparr>status = 400,
        payload = ErrorResponse ''Deletion Failed'' ''unauthorized access to product''\<rparr>
   \<and> fst (ProductHandler_GetByID ex_product_lib ex_db ex_store 50
             ''bbbbbbbb-bbbb-bbbb-bbbb-bbbbbbbbbbbb'' ex_other_uid) =
       \<lparr>status = 404, payload = ErrorResponse ''Not Found'' ''product not found''\<rparr>
   \<and> fst (ProductHandler_Delete ex_product_lib ex_db ex_store 50
             ''bbbbbbbb-bbbb-bbbb-bbbb-bbbbbbbbbbbb'' ex_other_uid) =
       \<lparr>status = 400, payload = ErrorResponse ''Deletion Failed'' ''product not found''\<rparr>"
  using non_owner_gets_404_on_read_and_400_on_write
          [where lib = ex_product_lib and idStr = "''aaaaaaaa-aaaa-aaaa-aaaa-aaaaaaaaaaaa''"
             and pid = "UUID ''aaaaaaaa-aaaa-aaaa-aaaa-aaaaaaaaaaaa''" and db = ex_db
             and existing = ex_product and userID = ex_other_uid and r = ex_store and now = 50
             and miss = "wrap ''failed to get value'' redis_Nil" and val = ex_validation
             and bound = "Inr ex_rename_request" and req = ex_rename_request
             and name = "Some ''Gadget''" and description = None
             and absentStr = "''bbbbbbbb-bbbb-bbbb-bbbb-bbbbbbbbbbbb''"
             and absent = "UUID ''bbbbbbbb-bbbb-bbbb-bbbb-bbbbbbbbbbbb''"]
  by (simp add: ex_product_lib_def ex_db_def ex_product_def ex_other_uid_def ex_uid_def
      ex_store_def CacheService_Get_Product_def redis_Get_def lookup_def
      StatusNotFound_def StatusBadRequest_def ex_rename_request_def ex_validation_def
      check_Name_def check_Description_def check_Price_def check_Stock_def)

text \<open>
  The update and the deletion of another user's product answer 400, not 404; and the
  message of each answer, which for an identifier that no product has is
  \<^verbatim>\<open>product not found\<close>, tells the caller that the product exists.
\<close>

theorem non_owner_update_and_delete_answer_400:
  "find (\<lambda>p. Product_ID p = UUID ''aaaaaaaa-aaaa-aaaa-aaaa-aaaaaaaaaaaa'') (rows ex_db) =
       Some ex_product
   \<and> Product_UserID ex_product = ex_uid
   \<and> ex_uid \<noteq> ex_other_uid
   \<and> ProductHandler_Update ex_product_lib ex_validation ex_db ex_store 50
        ''aaaaaaaa-aaaa-aaaa-aaaa-aaaaaaaaaaaa'' (Inr ex_rename_request) ex_other_uid =
       (\<lparr>status = 400,
         payload = ErrorResponse ''Update Failed'' ''unauthorized access to product''\<rparr>,
        ex_db, ex_store)
   \<and> ProductHandler_Delete ex_product_lib ex_db ex_store 50
        ''aaaaaaaa-aaaa-aaaa-aaaa-aaaaaaaaaaaa'' ex_other_uid =
       (\<lparr>status = 400,
         payload = ErrorResponse ''Deletion Failed'' ''unauthorized access to product''\<rparr>,
        ex_db, ex_store)
   \<and> StatusNotFound \<noteq> (400::nat)
   \<and> ProductHandler_GetByID ex_product_lib ex_db ex_store 50
        ''aaaaaaaa-aaaa-aaaa-aaaa-aaaaaaaaaaaa'' ex_other_uid =
       (\<lparr>status = 404,
         payload = ErrorResponse ''Not Found'' ''unauthorized access to product''\<rparr>, ex_store)
   \<and> find (\<lambda>p. Product_ID p = UUID ''bbbbbbbb-bbbb-bbbb-bbbb-bbbbbbbbbbbb'') (rows ex_db) = None
   \<and> ProductHandler_GetByID ex_product_lib ex_db ex_store 50
        ''bbbbbbbb-bbbb-bbbb-bbbb-bbbbbbbbbbbb'' ex_other_uid =
       (\<lparr>status = 404, payload = ErrorResponse ''Not Found'' ''product not found''\<rparr>,
        ex_store)"
  by (simp add: ProductHandler_Update_def ProductHandler_Delete_def ProductHandler_GetByID_def
      validateUUID_def ProductService_GetByID_def CacheService_Get_Product_def redis_Get_def
      lookup_def ex_store_def
      ex_product_lib_def ex_lib_def ex_validation_def ex_rename_request_def check_Name_def
      check_Description_def check_Price_def check_Stock_def product_of_request_def
      zero_Product_def ProductService_Update_def ProductService_Delete_def
      ProductRepository_GetByID_def ex_db_def ex_product_def ex_uid_def ex_other_uid_def
      bad_request_def StatusBadRequest_def StatusNotFound_def Let_def)

section \<open>Cache keys of identical queries\<close>

lemma enc_ptr_deref: "deref p = deref q \<Longrightarrow> enc_ptr f p = enc_ptr f q"
  by (cases p; cases q) simp_all

lemma marshal_ProductFilter_same:
  assumes "same_form_filter f g"
  shows "marshal_ProductFilter enc f = marshal_ProductFilter enc g"
proof -
  from assms have
    "enc_ptr (\<lambda>s. Some (enc_string enc s)) (Name f) =
       enc_ptr (\<lambda>s. Some (enc_string enc s)) (Name g)"
    "enc_ptr (enc_float64 enc) (MinPrice f) = enc_ptr (enc_float64 enc) (MinPrice g)"
    "enc_ptr (enc_float64 enc) (MaxPrice f) = enc_ptr (enc_float64 enc) (MaxPrice g)"
    "enc_ptr (\<lambda>n. Some (enc_int enc n)) (MinStock f) =
       enc_ptr (\<lambda>n. Some (enc_int enc n)) (MinStock g)"
    "enc_ptr (\<lambda>n. Some (enc_int enc n)) (MaxStock f) =
       enc_ptr (\<lambda>n. Some (enc_int enc n)) (MaxStock g)"
    "enc_ptr (enc_time enc) (CreatedFrom f) = enc_ptr (enc_time enc) (CreatedFrom g)"
    "enc_ptr (enc_time enc) (CreatedTo f) = enc_ptr (enc_time enc) (CreatedTo g)"
    "enc_ptr (enc_time enc) (UpdatedFrom f) = enc_ptr (enc_time enc) (UpdatedFrom g)"
    "enc_ptr (enc_time enc) (UpdatedTo f) = enc_ptr (enc_time enc) (UpdatedTo g)"
    by (auto simp: same_form_filter_def intro: enc_ptr_deref)
  then show ?thesis
    by (simp only: marshal_ProductFilter_def)
qed

lemma marshal_CursorPagination_same:
  assumes "deref (Cursor p) = deref (Cursor q)" and "Cursor_PageSize p = Cursor_PageSize q"
  shows "marshal_CursorPagination enc p = marshal_CursorPagination enc q"
  using assms enc_ptr_deref [of "Cursor p" "Cursor q" "\<lambda>s. Some (enc_string enc s)"]
  by (simp only: marshal_CursorPagination_def)

lemma rel_option_refl_eq: "(\<And>x. R x x) \<Longrightarrow> a = b \<Longrightarrow> rel_option R a b"
  by (cases a) auto

lemma same_form_filter_same: "same_form_filter f g \<Longrightarrow> same_filter f g"
  by (simp add: same_form_filter_def same_filter_def rel_option_refl_eq same_number_def
      same_instant_def)

text \<open>
  C6, as amended. For every user, two offset queries that carry the same values in the
  same form (and so are semantically identical) get the same cache key, and so do two
  such cursor queries, whatever the addresses the calling layer allocated for the
  optional fields and whatever the JSON encoders of the primitive values are.
\<close>

theorem cache_key_deterministic:
  "(same_form_query q1 q2 \<longrightarrow>
      same_query q1 q2
      \<and> generateQueryCacheKey enc userID q1 = generateQueryCacheKey enc userID q2)
   \<and> (same_form_cursor_query c1 c2 \<longrightarrow>
      same_cursor_query c1 c2
      \<and> generateCursorQueryCacheKey enc userID c1 = generateCursorQueryCacheKey enc userID c2)"
proof (intro conjI impI)
  assume a: "same_form_query q1 q2"
  then show "same_query q1 q2"
    by (simp add: same_form_query_def same_query_def same_form_filter_same)
  from a have "marshal_ProductQuery enc q1 = marshal_ProductQuery enc q2"
    using marshal_ProductFilter_same [of "Query_Filter q1" "Query_Filter q2" enc]
    by (simp add: same_form_query_def marshal_ProductQuery_def)
  then show "generateQueryCacheKey enc userID q1 = generateQueryCacheKey enc userID q2"
    by (simp add: generateQueryCacheKey_def)
next
  assume a: "same_form_cursor_query c1 c2"
  then show "same_cursor_query c1 c2"
    by (simp add: same_form_cursor_query_def same_cursor_query_def same_form_filter_same)
  from a have "marshal_ProductQueryCursor enc c1 = marshal_ProductQueryCursor enc c2"
    using marshal_ProductFilter_same [of "CursorQuery_Filter c1" "CursorQuery_Filter c2" enc]
      marshal_CursorPagination_same
        [of "CursorQuery_Pagination c1" "CursorQuery_Pagination c2" enc]
    by (simp add: same_form_cursor_query_def marshal_ProductQueryCursor_def)
  then show "generateCursorQueryCacheKey enc userID c1 = generateCursorQueryCacheKey enc userID c2"
    by (simp add: generateCursorQueryCacheKey_def)
qed

theorem cache_key_deterministic_witness:
  "same_form_query (ex_query 4096 (Finite 20) 0 ex_sort) (ex_query 8192 (Finite 20) 0 ex_sort)
   \<and> ex_query 4096 (Finite 20) 0 ex_sort \<noteq> ex_query 8192 (Finite 20) 0 ex_sort
   \<and> same_form_cursor_query (ex_cursor_query 4096 (Finite 20) 0 ex_sort)
        (ex_cursor_query 8192 (Finite 20) 0 ex_sort)
   \<and> ex_cursor_query 4096 (Finite 20) 0 ex_sort \<noteq> ex_cursor_query 8192 (Finite 20) 0 ex_sort
   \<and> generateQueryCacheKey ex_enc ex_uid (ex_query 4096 (Finite 20) 0 ex_sort) =
       generateQueryCacheKey ex_enc ex_uid (ex_query 8192 (Finite 20) 0 ex_sort)
   \<and> generateCursorQueryCacheKey ex_enc ex_uid (ex_cursor_query 4096 (Finite 20) 0 ex_sort) =
       generateCursorQueryCacheKey ex_enc ex_uid (ex_cursor_query 8192 (Finite 20) 0 ex_sort)
   \<and> marshal_ProductQuery ex_enc (ex_query 4096 (Finite 20) 0 ex_sort) \<noteq> None"
  using cache_key_deterministic
          [of "ex_query 4096 (Finite 20) 0 ex_sort" "ex_query 8192 (Finite 20) 0 ex_sort"
              ex_enc ex_uid
              "ex_cursor_query 4096 (Finite 20) 0 ex_sort"
              "ex_cursor_query 8192 (Finite 20) 0 ex_sort"]
  by (simp add: same_form_query_def same_form_cursor_query_def same_form_filter_def
      ex_query_def ex_cursor_query_def ex_filter_def ex_sort_def ex_midnight_def
      marshal_ProductQuery_def marshal_ProductFilter_def
      marshal_Sort_def marshal_SortField_def marshal_Pagination_def object_def ex_enc_def)

text \<open>
  Three pairs of semantically identical queries with different keys: a lowest price of
  \<^verbatim>\<open>0\<close> against \<^verbatim>\<open>-0\<close>, one instant written in UTC against the same instant written
  with an offset of one hour, and an empty sort slice against a \<^verbatim>\<open>nil\<close> one.
\<close>

theorem identical_queries_with_different_keys:
  "same_query (ex_query 4096 (Finite 0) 0 ex_sort) (ex_query 4096 NegZero 0 ex_sort)
   \<and> generateQueryCacheKey ex_enc ex_uid (ex_query 4096 (Finite 0) 0 ex_sort) \<noteq>
       generateQueryCacheKey ex_enc ex_uid (ex_query 4096 NegZero 0 ex_sort)
   \<and> same_query (ex_query 4096 (Finite 20) 0 ex_sort) (ex_query 4096 (Finite 20) 3600 ex_sort)
   \<and> generateQueryCacheKey ex_enc ex_uid (ex_query 4096 (Finite 20) 0 ex_sort) \<noteq>
       generateQueryCacheKey ex_enc ex_uid (ex_query 4096 (Finite 20) 3600 ex_sort)
   \<and> same_query (ex_query 4096 (Finite 20) 0 (Some [])) (ex_query 4096 (Finite 20) 0 None)
   \<and> generateQueryCacheKey ex_enc ex_uid (ex_query 4096 (Finite 20) 0 (Some [])) \<noteq>
       generateQueryCacheKey ex_enc ex_uid (ex_query 4096 (Finite 20) 0 None)"
  by (simp add: generateQueryCacheKey_def bytes_or_empty_def marshal_ProductQuery_def
      marshal_ProductFilter_def marshal_Pagination_def
      marshal_Sort_def marshal_SortField_def object_def ex_sort_def
      same_query_def same_filter_def same_number_def same_instant_def sort_list_def
      ex_query_def ex_filter_def ex_midnight_def ex_enc_def)

section \<open>The order of the gatekeeper's checks\<close>

lemma jwt_Parse_Inr:
  "jwt_Parse lib now ts (keyfunc jwtSecret) = Inr tok \<longleftrightarrow>
     jwt_decode lib ts = Some tok \<and> is_HMAC (Method tok) \<and> signed_with tok = jwtSecret
     \<and> jwt_Validate now (Claims tok) = None"
  by (auto simp: jwt_Parse_def keyfunc_def split: option.splits sum.splits if_splits)

lemma verdict_unauthorized:
  "verdict (unauthorized m) = map_option Inl (reason_of_message m)"
  by (simp add: unauthorized_def StatusUnauthorized_def)

lemma reason_of_messages:
  "reason_of_message ''Authorization header is required'' = Some MissingCredentials"
  "reason_of_message ''Invalid authorization header format'' = Some MissingCredentials"
  "reason_of_message ''Invalid or expired token'' = Some InvalidToken"
  "reason_of_message ''Invalid user ID in token'' = Some InvalidToken"
  "reason_of_message ''Invalid session ID in token'' = Some InvalidToken"
  "reason_of_message ''Invalid user ID format'' = Some InvalidToken"
  "reason_of_message ''Session expired or invalid'' = Some SessionInvalid"
  "reason_of_message ''Token has been invalidated'' = Some TokenRevoked"
  "reason_of_message ''Session has been invalidated by logout all'' =
     Some SessionRevokedByLogoutAll"
  by (simp_all add: reason_of_message_def)

lemma length_Bearer: "length ''Bearer '' = (7::nat)"
  by simp

lemma header_well_formed_iff:
  "header_well_formed h \<longleftrightarrow> h \<noteq> [] \<and> HasPrefix h ''Bearer ''"
  by (simp only: header_well_formed_def HasPrefix_def length_Bearer)

lemma TrimPrefix_Bearer: "HasPrefix h ''Bearer '' \<Longrightarrow> TrimPrefix h ''Bearer '' = drop 7 h"
  by (simp only: TrimPrefix_def length_Bearer if_True)

lemma IsSessionValid_result:
  "fst (IsSessionValid r now sid) = (session_valid r now sid, None)"
  by (auto simp: IsSessionValid_def GetSession_def CacheService_Get_Session_def redis_Get_def
      session_valid_def session_key_def Let_def
      split: sum.splits option.splits cached.splits if_splits prod.splits)

lemma IsSessionValid_store:
  "session_valid r now sid \<Longrightarrow> snd (IsSessionValid r now sid) = r"
  by (auto simp: IsSessionValid_def GetSession_def CacheService_Get_Session_def redis_Get_def
      session_valid_def session_key_def Let_def
      split: sum.splits option.splits cached.splits if_splits prod.splits)

lemma IsTokenBlacklisted_result:
  "reachable r \<Longrightarrow>
   IsTokenBlacklisted lib r now ts = (token_revoked lib r now ts, None)"
  by (auto simp: IsTokenBlacklisted_def hashToken_def CacheService_Exists_def redis_Exists_def
      token_revoked_def split: option.splits)

lemma IsUserSessionBlacklisted_result:
  "reachable r \<Longrightarrow>
   IsUserSessionBlacklisted r now userID sid = (session_bulk_revoked r now userID sid, None)"
  by (auto simp: IsUserSessionBlacklisted_def CacheService_Exists_def redis_Exists_def
      session_bulk_revoked_def split: option.splits)

lemma token_verified_Some:
  assumes "token_verified lib jwtSecret now ts = Some (userID, sid)"
  shows "\<exists>tok u. jwt_Parse lib now ts (keyfunc jwtSecret) = Inr tok
           \<and> map_of (Claims tok) ''user_id'' = Some (VString u)
           \<and> map_of (Claims tok) ''session_id'' = Some (VString sid)
           \<and> uuid_Parse lib u = Some userID"
  using assms
  by (auto simp: token_verified_def jwt_Parse_Inr
      split: option.splits if_splits claim.splits)

lemma token_verified_None:
  assumes "token_verified lib jwtSecret now ts = None"
    and "jwt_Parse lib now ts (keyfunc jwtSecret) = Inr tok"
  shows "(\<forall>u. map_of (Claims tok) ''user_id'' \<noteq> Some (VString u))
       \<or> (\<forall>sid. map_of (Claims tok) ''session_id'' \<noteq> Some (VString sid))
       \<or> (\<exists>u. map_of (Claims tok) ''user_id'' = Some (VString u) \<and> uuid_Parse lib u = None)"
  using assms
  by (auto simp: token_verified_def jwt_Parse_Inr
      split: option.splits if_splits claim.splits)

lemma AuthMiddleware_malformed_header:
  assumes "\<not> header_well_formed h"
  shows "verdict (fst (AuthMiddleware lib jwtSecret r now h)) = Some (Inl MissingCredentials)
       \<and> snd (AuthMiddleware lib jwtSecret r now h) = r"
  using assms
  by (auto simp: AuthMiddleware_def header_well_formed_iff verdict_unauthorized
      reason_of_messages)

lemma AuthMiddleware_unverified:
  assumes hw: "header_well_formed h"
    and tv: "token_verified lib jwtSecret now (drop 7 h) = None"
  shows "verdict (fst (AuthMiddleware lib jwtSecret r now h)) = Some (Inl InvalidToken)
       \<and> snd (AuthMiddleware lib jwtSecret r now h) = r"
proof -
  from hw have h: "h \<noteq> []" "HasPrefix h ''Bearer ''" "TrimPrefix h ''Bearer '' = drop 7 h"
    by (simp_all add: header_well_formed_iff TrimPrefix_Bearer)
  show ?thesis
  proof (cases "jwt_Parse lib now (drop 7 h) (keyfunc jwtSecret)")
    case (Inl err)
    with h show ?thesis
      by (simp add: AuthMiddleware_def verdict_unauthorized reason_of_messages)
  next
    case (Inr tok)
    from token_verified_None [OF tv Inr] h Inr show ?thesis
      by (auto simp: AuthMiddleware_def Let_def verdict_unauthorized reason_of_messages
          split: option.splits claim.splits)
  qed
qed

lemma AuthMiddleware_verified:
  assumes hw: "header_well_formed h"
    and tv: "token_verified lib jwtSecret now (drop 7 h) = Some (userID, sid)"
  shows "AuthMiddleware lib jwtSecret r now h =
     (if \<not> session_valid r now sid
      then (unauthorized ''Session expired or invalid'', snd (IsSessionValid r now sid))
      else if token_revoked lib r now (drop 7 h)
      then (unauthorized ''Token has been invalidated'', r)
      else if session_bulk_revoked r now userID sid
      then (unauthorized ''Session has been invalidated by logout all'', r)
      else (Next \<lparr>user_id = userID, session_id = sid, token = drop 7 h\<rparr>, r))"
proof -
  from hw have h: "h \<noteq> []" "HasPrefix h ''Bearer ''" "TrimPrefix h ''Bearer '' = drop 7 h"
    by (simp_all add: header_well_formed_iff TrimPrefix_Bearer)
  from token_verified_Some [OF tv] obtain tok u where
    tok: "jwt_Parse lib now (drop 7 h) (keyfunc jwtSecret) = Inr tok"
      "map_of (Claims tok) ''user_id'' = Some (VString u)"
      "map_of (Claims tok) ''session_id'' = Some (VString sid)"
      "uuid_Parse lib u = Some userID"
    by blast
  obtain r1 where v: "IsSessionValid r now sid = ((session_valid r now sid, None), r1)"
    using IsSessionValid_result [of r now sid] by (cases "IsSessionValid r now sid") auto
  show ?thesis
  proof (cases "session_valid r now sid")
    case False
    with h tok v show ?thesis
      by (simp add: AuthMiddleware_def ValidateSession_def)
  next
    case True
    then have up: "reachable r" by (simp add: session_valid_def)
    from True v IsSessionValid_store [of r now sid] have r1: "r1 = r" by simp
    from h tok v r1 True show ?thesis
      by (simp add: AuthMiddleware_def ValidateSession_def
          IsTokenBlacklisted_result [OF up] IsUserSessionBlacklisted_result [OF up])
  qed
qed

lemma token_verified_spec_complete:
  assumes "case jwt_decode lib ts of None \<Rightarrow> True | Some tok \<Rightarrow> has_required_claims (Claims tok)"
  shows "token_verified_spec lib jwtSecret now ts = token_verified lib jwtSecret now ts"
  using assms
  by (auto simp: token_verified_spec_def token_verified_def has_required_claims_def
      split: option.splits)

lemma gatekeeper_spec_complete:
  assumes "case jwt_decode lib (drop 7 authHeader) of
             None \<Rightarrow> True
           | Some tok \<Rightarrow> has_required_claims (Claims tok)"
  shows "gatekeeper_spec lib jwtSecret r now authHeader = gatekeeper lib jwtSecret r now authHeader"
  by (simp only: gatekeeper_spec_def gatekeeper_def token_verified_spec_complete [OF assms])

text \<open>
  C1, as amended. Read as a gatekeeper verdict, the outcome of \<^verbatim>\<open>AuthMiddleware\<close> is the
  one of the five checks taken in order on the arriving request and store, with the token
  check the middleware makes: every abort is a 401 whose message stands for the first
  check that fails, and when all five pass the context receives the user id, the session
  id and the raw token. Unless the session check is the one that fails, the store is left
  as it was. For a token that carries a numeric \<^verbatim>\<open>exp\<close> and string \<^verbatim>\<open>email\<close> and
  \<^verbatim>\<open>type\<close> claims, as every issued token does, the verdict is the one of the gatekeeper
  of the specification.
\<close>

theorem AuthMiddleware_checks_in_order:
  "verdict (fst (AuthMiddleware lib jwtSecret r now authHeader)) =
     Some (gatekeeper lib jwtSecret r now authHeader)
   \<and> (gatekeeper lib jwtSecret r now authHeader \<noteq> Inl SessionInvalid \<longrightarrow>
        snd (AuthMiddleware lib jwtSecret r now authHeader) = r)
   \<and> ((case jwt_decode lib (drop 7 authHeader) of
          None \<Rightarrow> True
        | Some tok \<Rightarrow> has_required_claims (Claims tok)) \<longrightarrow>
        verdict (fst (AuthMiddleware lib jwtSecret r now authHeader)) =
          Some (gatekeeper_spec lib jwtSecret r now authHeader))"
proof -
  have main: "verdict (fst (AuthMiddleware lib jwtSecret r now authHeader)) =
     Some (gatekeeper lib jwtSecret r now authHeader)
   \<and> (gatekeeper lib jwtSecret r now authHeader \<noteq> Inl SessionInvalid \<longrightarrow>
        snd (AuthMiddleware lib jwtSecret r now authHeader) = r)"
  proof (cases "header_well_formed authHeader")
    case False
    with AuthMiddleware_malformed_header [OF False, of lib jwtSecret r now] show ?thesis
      by (simp add: gatekeeper_def)
  next
    case True
    show ?thesis
    proof (cases "token_verified lib jwtSecret now (drop 7 authHeader)")
      case None
      with True AuthMiddleware_unverified [OF True None, of r] show ?thesis
        by (simp add: gatekeeper_def)
    next
      case (Some p)
      obtain userID sid where p: "p = (userID, sid)" by (cases p)
      with True Some AuthMiddleware_verified [of authHeader lib jwtSecret now userID sid r]
      show ?thesis
        by (simp add: gatekeeper_def verdict_unauthorized reason_of_messages)
    qed
  qed
  with gatekeeper_spec_complete [of lib authHeader jwtSecret r now] show ?thesis
    by simp
qed

theorem AuthMiddleware_checks_in_order_witness:
  "verdict (fst (AuthMiddleware ex_lib ex_secret ex_store 5 ''Bearer tok.access'')) =
     Some (Inr \<lparr>user_id = ex_uid, session_id = ''s1'', token = ''tok.access''\<rparr>)
   \<and> snd (AuthMiddleware ex_lib ex_secret ex_store 5 ''Bearer tok.access'') = ex_store
   \<and> verdict (fst (AuthMiddleware ex_lib ex_secret
                     (snd (BlacklistToken ex_lib ex_store 1 ''tok.access'')) 5
                     ''Bearer tok.access'')) = Some (Inl TokenRevoked)
   \<and> verdict (fst (AuthMiddleware ex_lib ex_secret ex_store 86400000000000
                     ''Bearer tok.refresh'')) = Some (Inl SessionInvalid)
   \<and> verdict (fst (AuthMiddleware ex_lib ex_secret ex_store 5 ''Basic tok.access'')) =
       Some (Inl MissingCredentials)
   \<and> jwt_decode ex_lib ''tok.access'' = Some (NewAccessToken 0 ex_user ''s1'' ex_secret)
   \<and> has_required_claims (Claims (NewAccessToken 0 ex_user ''s1'' ex_secret))
   \<and> gatekeeper_spec ex_lib ex_secret ex_store 5 ''Bearer tok.access'' =
       Inr \<lparr>user_id = ex_uid, session_id = ''s1'', token = ''tok.access''\<rparr>"
  using AuthMiddleware_checks_in_order [of ex_lib ex_secret ex_store 5 "''Bearer tok.access''"]
    AuthMiddleware_checks_in_order
      [of ex_lib ex_secret "snd (BlacklistToken ex_lib ex_store 1 ''tok.access'')" 5
          "''Bearer tok.access''"]
    AuthMiddleware_checks_in_order
      [of ex_lib ex_secret ex_store 86400000000000 "''Bearer tok.refresh''"]
    AuthMiddleware_checks_in_order [of ex_lib ex_secret ex_store 5 "''Basic tok.access''"]
  by (simp add: gatekeeper_def gatekeeper_spec_def header_well_formed_def token_verified_def
      token_verified_spec_def ex_lib_def
      has_required_claims_def claim_is_string_def claim_is_number_def
      NewAccessToken_def NewRefreshToken_def ex_secret_def ex_user_def ex_uid_def
      jwt_Validate_def Unix_def
      time_Hour_def time_Second_def session_valid_def lookup_def ex_store_def ex_session_def
      token_revoked_def session_bulk_revoked_def BlacklistToken_def hashToken_def
      CacheService_Set_def redis_Set_def)

text \<open>
  The token of the example that has no \<^verbatim>\<open>email\<close> and no \<^verbatim>\<open>type\<close> claim, and the one
  that has no \<^verbatim>\<open>exp\<close> claim, fail check 2 of the specification and pass the middleware.
\<close>

theorem AuthMiddleware_passes_a_token_the_specified_check_rejects:
  "gatekeeper_spec ex_lib ex_secret ex_store 5 ''Bearer tok.bare'' = Inl InvalidToken
   \<and> AuthMiddleware ex_lib ex_secret ex_store 5 ''Bearer tok.bare'' =
       (Next \<lparr>user_id = ex_uid, session_id = ''s1'', token = ''tok.bare''\<rparr>, ex_store)
   \<and> gatekeeper_spec ex_lib ex_secret ex_store 5 ''Bearer tok.noexp'' = Inl InvalidToken
   \<and> AuthMiddleware ex_lib ex_secret ex_store 5 ''Bearer tok.noexp'' =
       (Next \<lparr>user_id = ex_uid, session_id = ''s1'', token = ''tok.noexp''\<rparr>, ex_store)"
  by (simp add: gatekeeper_spec_def header_well_formed_def token_verified_spec_def
      claim_is_string_def claim_is_number_def
      AuthMiddleware_def HasPrefix_def TrimPrefix_def
      jwt_Parse_def keyfunc_def jwt_Validate_def ex_lib_def ex_bare_token_def
      ex_noexp_token_def ex_secret_def
      ValidateSession_def IsSessionValid_def GetSession_def CacheService_Get_Session_def
      redis_Get_def lookup_def session_key_def ex_store_def ex_session_def
      IsTokenBlacklisted_def IsUserSessionBlacklisted_def hashToken_def
      CacheService_Exists_def redis_Exists_def ex_uid_def time_Second_def Let_def)

section \<open>What token verification rejects and what it lets pass\<close>







end
